theory Spec2Isabelle
  imports Main "HOL-Library.Word"
begin

unbundle bit_operations_syntax

section \<open>The sunxi GPADC / thermal sensor driver (drivers/iio/adc/sun4i-gpadc-iio.c)\<close>

text \<open>
  A shallow embedding of the driver. C \<^verbatim>\<open>int\<close> and \<^verbatim>\<open>u32\<close> values are 32-bit words
  (arithmetic wraps; the kernel is built with wrapping signed arithmetic), return codes are
  integers (0 is success, a negative errno is failure). Every function takes the device
  structure \<^verbatim>\<open>struct sun4i_gpadc_iio\<close> as a record and returns the updated record.
\<close>

type_synonym u32 = "32 word"

subsection \<open>The register header\<close>

text \<open>
  The driver takes its register offsets, bit masks and field macros from
  \<^verbatim>\<open>linux/iio/adc/sun4i-gpadc.h\<close>, and its error numbers and IIO value kinds from the
  kernel's \<^verbatim>\<open>errno.h\<close> and \<^verbatim>\<open>linux/iio/types.h\<close>; none of them is part of the tree at
  hand. Every macro the driver uses is therefore a field of the record below, and every
  function of the driver that uses one takes the record as its first argument: results
  hold for whatever values the headers give them, unless a hypothesis says otherwise.
\<close>

record gpadc_header =
  SUN4I_GPADC_CTRL0 :: u32
  SUN4I_GPADC_CTRL0_ADC_CLK_DIVIDER :: "u32 \<Rightarrow> u32"
  SUN4I_GPADC_CTRL0_FS_DIV :: "u32 \<Rightarrow> u32"
  SUN4I_GPADC_CTRL0_T_ACQ :: "u32 \<Rightarrow> u32"
  SUN4I_GPADC_CTRL1 :: u32
  SUN4I_GPADC_CTRL1_TP_MODE_EN :: u32
  SUN4I_GPADC_CTRL1_TP_ADC_SELECT :: u32
  SUN4I_GPADC_CTRL1_ADC_CHAN_SELECT :: "u32 \<Rightarrow> u32"
  SUN4I_GPADC_CTRL1_ADC_CHAN_MASK :: u32
  SUN6I_GPADC_CTRL1_TP_MODE_EN :: u32
  SUN6I_GPADC_CTRL1_TP_ADC_SELECT :: u32
  SUN6I_GPADC_CTRL1_ADC_CHAN_SELECT :: "u32 \<Rightarrow> u32"
  SUN6I_GPADC_CTRL1_ADC_CHAN_MASK :: u32
  SUN8I_A33_GPADC_CTRL1_CHOP_TEMP_EN :: u32
  SUN4I_GPADC_CTRL3 :: u32
  SUN4I_GPADC_CTRL3_FILTER_EN :: u32
  SUN4I_GPADC_CTRL3_FILTER_TYPE :: "u32 \<Rightarrow> u32"
  SUN4I_GPADC_TPR :: u32
  SUN4I_GPADC_TPR_TEMP_ENABLE :: u32
  SUN4I_GPADC_TPR_TEMP_PERIOD :: "u32 \<Rightarrow> u32"
  SUN4I_GPADC_INT_FIFOC :: u32
  SUN4I_GPADC_INT_FIFOC_TEMP_IRQ_EN :: u32
  SUN4I_GPADC_INT_FIFOC_TP_FIFO_TRIG_LEVEL :: "u32 \<Rightarrow> u32"
  SUN4I_GPADC_INT_FIFOC_TP_FIFO_FLUSH :: u32
  SUN4I_GPADC_TEMP_DATA :: u32
  SUN4I_GPADC_DATA :: u32
  SUN4I_GPADC_IRQ_FIFO_DATA :: u32
  SUN4I_GPADC_IRQ_TEMP_DATA :: u32
  SUN8I_H3_THS_CTRL0 :: u32
  SUN8I_H3_THS_CTRL2 :: u32
  SUN8I_H3_THS_ACQ1 :: "u32 \<Rightarrow> u32"
  SUN8I_H3_THS_TEMP_SENSE_EN0 :: u32
  SUN8I_H3_THS_INTC :: u32
  SUN8I_H3_THS_INTC_TDATA_IRQ_EN0 :: u32
  SUN8I_H3_THS_TEMP_PERIOD :: "u32 \<Rightarrow> u32"
  SUN8I_H3_THS_STAT :: u32
  SUN8I_H3_THS_INTS_TDATA_IRQ_0 :: u32
  SUN8I_H3_THS_FILTER :: u32
  SUN8I_H3_THS_TDATA0 :: u32
  ENODEV :: int
  EINVAL :: int
  ETIMEDOUT :: int
  EPROBE_DEFER :: int
  IIO_VAL_INT :: int
  IIO_VAL_INT_PLUS_NANO :: int

subsection \<open>Variant profiles: struct gpadc\_data\<close>

text \<open>
  Function pointers are enumerations of the functions the file stores in them. A pointer
  the initialiser leaves out is NULL: \<^verbatim>\<open>None\<close>. The suspend and resume hooks are set
  in each of the five profiles of the file, so they carry no \<^verbatim>\<open>None\<close>.
\<close>

datatype chan_select_fn = Sun4i_gpadc_chan_select | Sun6i_gpadc_chan_select

datatype irq_thread_fn = Sun4i_gpadc_data_irq_handler | Sunx8i_h3_irq_thread

datatype suspend_fn = Sun4i_ths_suspend | Sun8i_h3_ths_suspend

datatype resume_fn = Sun4i_ths_resume | Sun8i_h3_ths_resume

record gpadc_data =
  temp_offset :: "32 word"
  temp_scale :: "32 word"
  tp_mode_en :: u32
  tp_adc_select :: u32
  adc_chan_select :: "chan_select_fn option"
  adc_chan_mask :: u32
  adc_channel :: bool
  ths_irq_thread :: "irq_thread_fn option"
  ths_suspend :: suspend_fn
  ths_resume :: resume_fn
  support_irq :: bool
  has_bus_clk :: bool
  has_bus_rst :: bool
  has_mod_clk :: bool
  temp_data_base :: u32
  sensor_count :: int
  supports_nvmem :: bool
  ths_irq_clear :: u32

definition sun4i_gpadc_chan_select :: "gpadc_header \<Rightarrow> u32 \<Rightarrow> u32" where
  "sun4i_gpadc_chan_select hw chan = SUN4I_GPADC_CTRL1_ADC_CHAN_SELECT hw chan"

definition sun6i_gpadc_chan_select :: "gpadc_header \<Rightarrow> u32 \<Rightarrow> u32" where
  "sun6i_gpadc_chan_select hw chan = SUN6I_GPADC_CTRL1_ADC_CHAN_SELECT hw chan"

fun call_chan_select :: "gpadc_header \<Rightarrow> chan_select_fn \<Rightarrow> u32 \<Rightarrow> u32" where
  "call_chan_select hw Sun4i_gpadc_chan_select chan = sun4i_gpadc_chan_select hw chan"
| "call_chan_select hw Sun6i_gpadc_chan_select chan = sun6i_gpadc_chan_select hw chan"

definition sun4i_gpadc_data :: "gpadc_header \<Rightarrow> gpadc_data" where
  "sun4i_gpadc_data hw =
     \<lparr> temp_offset = - 1932, temp_scale = 133,
       tp_mode_en = SUN4I_GPADC_CTRL1_TP_MODE_EN hw,
       tp_adc_select = SUN4I_GPADC_CTRL1_TP_ADC_SELECT hw,
       adc_chan_select = Some Sun4i_gpadc_chan_select,
       adc_chan_mask = SUN4I_GPADC_CTRL1_ADC_CHAN_MASK hw,
       adc_channel = True,
       ths_irq_thread = Some Sun4i_gpadc_data_irq_handler,
       ths_suspend = Sun4i_ths_suspend, ths_resume = Sun4i_ths_resume,
       support_irq = True, has_bus_clk = False, has_bus_rst = False, has_mod_clk = False,
       temp_data_base = SUN4I_GPADC_TEMP_DATA hw, sensor_count = 1,
       supports_nvmem = False, ths_irq_clear = 0 \<rparr>"

definition sun5i_gpadc_data :: "gpadc_header \<Rightarrow> gpadc_data" where
  "sun5i_gpadc_data hw =
     \<lparr> temp_offset = - 1447, temp_scale = 100,
       tp_mode_en = SUN4I_GPADC_CTRL1_TP_MODE_EN hw,
       tp_adc_select = SUN4I_GPADC_CTRL1_TP_ADC_SELECT hw,
       adc_chan_select = Some Sun4i_gpadc_chan_select,
       adc_chan_mask = SUN4I_GPADC_CTRL1_ADC_CHAN_MASK hw,
       adc_channel = True,
       ths_irq_thread = Some Sun4i_gpadc_data_irq_handler,
       ths_suspend = Sun4i_ths_suspend, ths_resume = Sun4i_ths_resume,
       support_irq = True, has_bus_clk = False, has_bus_rst = False, has_mod_clk = False,
       temp_data_base = SUN4I_GPADC_TEMP_DATA hw, sensor_count = 1,
       supports_nvmem = False, ths_irq_clear = 0 \<rparr>"

definition sun6i_gpadc_data :: "gpadc_header \<Rightarrow> gpadc_data" where
  "sun6i_gpadc_data hw =
     \<lparr> temp_offset = - 1623, temp_scale = 167,
       tp_mode_en = SUN6I_GPADC_CTRL1_TP_MODE_EN hw,
       tp_adc_select = SUN6I_GPADC_CTRL1_TP_ADC_SELECT hw,
       adc_chan_select = Some Sun6i_gpadc_chan_select,
       adc_chan_mask = SUN6I_GPADC_CTRL1_ADC_CHAN_MASK hw,
       adc_channel = True,
       ths_irq_thread = Some Sun4i_gpadc_data_irq_handler,
       ths_suspend = Sun4i_ths_suspend, ths_resume = Sun4i_ths_resume,
       support_irq = True, has_bus_clk = False, has_bus_rst = False, has_mod_clk = False,
       temp_data_base = SUN4I_GPADC_TEMP_DATA hw, sensor_count = 1,
       supports_nvmem = False, ths_irq_clear = 0 \<rparr>"

definition sun8i_a33_gpadc_data :: "gpadc_header \<Rightarrow> gpadc_data" where
  "sun8i_a33_gpadc_data hw =
     \<lparr> temp_offset = - 1662, temp_scale = 162,
       tp_mode_en = SUN8I_A33_GPADC_CTRL1_CHOP_TEMP_EN hw,
       tp_adc_select = 0,
       adc_chan_select = None,
       adc_chan_mask = 0,
       adc_channel = False,
       ths_irq_thread = None,
       ths_suspend = Sun4i_ths_suspend, ths_resume = Sun4i_ths_resume,
       support_irq = False, has_bus_clk = False, has_bus_rst = False, has_mod_clk = False,
       temp_data_base = SUN4I_GPADC_TEMP_DATA hw, sensor_count = 1,
       supports_nvmem = False, ths_irq_clear = 0 \<rparr>"

definition sun8i_h3_ths_data :: "gpadc_header \<Rightarrow> gpadc_data" where
  "sun8i_h3_ths_data hw =
     \<lparr> temp_offset = - 1791, temp_scale = - 121,
       tp_mode_en = 0,
       tp_adc_select = 0,
       adc_chan_select = None,
       adc_chan_mask = 0,
       adc_channel = False,
       ths_irq_thread = Some Sunx8i_h3_irq_thread,
       ths_suspend = Sun8i_h3_ths_suspend, ths_resume = Sun8i_h3_ths_resume,
       support_irq = True, has_bus_clk = True, has_bus_rst = True, has_mod_clk = True,
       temp_data_base = SUN8I_H3_THS_TDATA0 hw, sensor_count = 1,
       supports_nvmem = True, ths_irq_clear = SUN8I_H3_THS_INTS_TDATA_IRQ_0 hw \<rparr>"

subsection \<open>The device structure and what the kernel does around it\<close>

text \<open>
  Calls into the kernel are recorded, in order, in a trace. A register access carries its
  register, its value (for a write) and its return code.
\<close>

datatype clk_id = Bus_clk | Mod_clk

datatype event =
    Mutex_lock
  | Mutex_unlock
  | Pm_runtime_get_sync
  | Pm_runtime_mark_last_busy
  | Pm_runtime_put_autosuspend
  | Reinit_completion
  | Complete
  | Wait_for_completion_timeout nat
  | Regmap_write u32 u32 int
  | Regmap_read u32 int
  | Mdelay nat
  | Enable_irq
  | Disable_irq
  | Thermal_zone_device_update nat
  | Dev_err string
  | Reset_control_deassert
  | Reset_control_assert
  | Clk_prepare_enable clk_id
  | Clk_set_rate clk_id nat
  | Clk_disable_unprepare clk_id

text \<open>
  The fields of \<^verbatim>\<open>struct sun4i_gpadc_iio\<close> the code reads or writes, followed by the
  state of the kernel objects behind its handles:
  \<^item> \<^verbatim>\<open>completion\<close> is the count of posted, unconsumed signals (\<^verbatim>\<open>completion.done\<close>);
  \<^item> \<^verbatim>\<open>regmap\<close> is the content of the register file behind \<^verbatim>\<open>info->regmap\<close>;
  \<^item> \<^verbatim>\<open>irq_depth\<close> is the disable depth of the interrupt line \<^verbatim>\<open>info->irq\<close>
    (the line is delivered only at depth 0);
  \<^item> \<^verbatim>\<open>data\<close> is the profile \<^verbatim>\<open>info->data\<close> points to (the probe sets it before any
    use; a device that is not bound has no meaningful profile);
  \<^item> \<^verbatim>\<open>calibration_data\<close> is the array of two words, as a pair;
  \<^item> \<^verbatim>\<open>mutex\<close> tells whether \<^verbatim>\<open>info->mutex\<close> is held;
  \<^item> \<^verbatim>\<open>pm_usage\<close> is the runtime-PM usage count of the parent device (the power claim);
  \<^item> \<^verbatim>\<open>faults\<close> is the list of return codes of the coming register accesses, one for
    each access in order, and 0 once the list is used up (\<^verbatim>\<open>next_fault\<close> reads its head);
  \<^item> \<^verbatim>\<open>trace\<close> is the record of kernel calls made so far.
\<close>

record sun4i_gpadc_iio =
  completion :: nat
  temp_data :: "32 word"
  adc_data :: u32
  irq_data_type :: u32
  regmap :: "u32 \<Rightarrow> u32"
  irq :: nat
  data :: gpadc_data
  mutex :: bool
  calibration_data :: "u32 \<times> u32"
  irq_depth :: nat
  pm_usage :: int
  faults :: "int list"
  trace :: "event list"

definition log :: "event \<Rightarrow> sun4i_gpadc_iio \<Rightarrow> sun4i_gpadc_iio" where
  "log e s = s\<lparr>trace := trace s @ [e]\<rparr>"

definition mutex_lock :: "sun4i_gpadc_iio \<Rightarrow> sun4i_gpadc_iio" where
  "mutex_lock s = log Mutex_lock (s\<lparr>mutex := True\<rparr>)"

definition mutex_unlock :: "sun4i_gpadc_iio \<Rightarrow> sun4i_gpadc_iio" where
  "mutex_unlock s = log Mutex_unlock (s\<lparr>mutex := False\<rparr>)"

definition pm_runtime_get_sync :: "sun4i_gpadc_iio \<Rightarrow> sun4i_gpadc_iio" where
  "pm_runtime_get_sync s = log Pm_runtime_get_sync (s\<lparr>pm_usage := pm_usage s + 1\<rparr>)"

definition pm_runtime_mark_last_busy :: "sun4i_gpadc_iio \<Rightarrow> sun4i_gpadc_iio" where
  "pm_runtime_mark_last_busy s = log Pm_runtime_mark_last_busy s"

definition pm_runtime_put_autosuspend :: "sun4i_gpadc_iio \<Rightarrow> sun4i_gpadc_iio" where
  "pm_runtime_put_autosuspend s =
     log Pm_runtime_put_autosuspend (s\<lparr>pm_usage := pm_usage s - 1\<rparr>)"

definition reinit_completion :: "sun4i_gpadc_iio \<Rightarrow> sun4i_gpadc_iio" where
  "reinit_completion s = log Reinit_completion (s\<lparr>completion := 0\<rparr>)"

definition complete :: "sun4i_gpadc_iio \<Rightarrow> sun4i_gpadc_iio" where
  "complete s = log Complete (s\<lparr>completion := Suc (completion s)\<rparr>)"

definition mdelay :: "nat \<Rightarrow> sun4i_gpadc_iio \<Rightarrow> sun4i_gpadc_iio" where
  "mdelay ms s = log (Mdelay ms) s"

text \<open>
  \<^verbatim>\<open>enable_irq\<close> lowers the disable depth and \<^verbatim>\<open>disable_irq\<close> raises it; an
  \<^verbatim>\<open>enable_irq\<close> at depth 0 is the kernel's "unbalanced enable" warning and changes
  nothing.
\<close>

definition enable_irq :: "sun4i_gpadc_iio \<Rightarrow> sun4i_gpadc_iio" where
  "enable_irq s = log Enable_irq (s\<lparr>irq_depth := irq_depth s - 1\<rparr>)"

definition disable_irq :: "sun4i_gpadc_iio \<Rightarrow> sun4i_gpadc_iio" where
  "disable_irq s = log Disable_irq (s\<lparr>irq_depth := Suc (irq_depth s)\<rparr>)"

text \<open>
  Register accesses. An access takes the next return code from \<^verbatim>\<open>faults\<close>; a failed
  write leaves the register file as it is, a failed read leaves the destination as it is
  (the third argument of \<^verbatim>\<open>regmap_read\<close> is the destination's content before the call,
  the third result its content after).
\<close>

definition next_fault :: "sun4i_gpadc_iio \<Rightarrow> int" where
  "next_fault s = (case faults s of [] \<Rightarrow> 0 | e # _ \<Rightarrow> e)"

definition regmap_write :: "sun4i_gpadc_iio \<Rightarrow> u32 \<Rightarrow> u32 \<Rightarrow> sun4i_gpadc_iio \<times> int" where
  "regmap_write s reg v =
     (let e = next_fault s;
          s1 = s\<lparr>faults := tl (faults s)\<rparr>;
          s2 = (if e = 0 then s1\<lparr>regmap := (regmap s1)(reg := v)\<rparr> else s1)
      in (log (Regmap_write reg v e) s2, e))"

definition regmap_read :: "sun4i_gpadc_iio \<Rightarrow> u32 \<Rightarrow> u32 \<Rightarrow> sun4i_gpadc_iio \<times> int \<times> u32" where
  "regmap_read s reg dst =
     (let e = next_fault s;
          s1 = s\<lparr>faults := tl (faults s)\<rparr>
      in (log (Regmap_read reg e) s1, e, if e = 0 then regmap s1 reg else dst))"

subsection \<open>The data interrupt handler\<close>

datatype irqreturn = IRQ_NONE | IRQ_HANDLED | IRQ_WAKE_THREAD

definition sun4i_gpadc_data_irq_handler ::
  "gpadc_header \<Rightarrow> sun4i_gpadc_iio \<Rightarrow> sun4i_gpadc_iio \<times> irqreturn" where
  "sun4i_gpadc_data_irq_handler hw info =
     (if irq_data_type info = SUN4I_GPADC_IRQ_FIFO_DATA hw then
        (let (s1, ret, v) = regmap_read info (SUN4I_GPADC_DATA hw) (adc_data info);
             s2 = s1\<lparr>adc_data := v\<rparr>
         in (if ret = 0 then complete s2 else s2, IRQ_HANDLED))
      else
        (let (s1, ret, v) = regmap_read info (SUN4I_GPADC_TEMP_DATA hw) (temp_data info);
             s2 = s1\<lparr>temp_data := v\<rparr>
         in (if ret = 0 then complete s2 else s2, IRQ_HANDLED)))"

definition sunx8i_h3_irq_thread ::
  "gpadc_header \<Rightarrow> sun4i_gpadc_iio \<Rightarrow> sun4i_gpadc_iio \<times> irqreturn" where
  "sunx8i_h3_irq_thread hw info =
     (let (s1, _) = regmap_write info (SUN8I_H3_THS_STAT hw) (ths_irq_clear (data info));
          s2 = fold (\<lambda>i. log (Thermal_zone_device_update i))
                 [0 ..< nat (sensor_count (data info))] s1
      in (s2, IRQ_HANDLED))"

text \<open>The call through \<^verbatim>\<open>info->data->ths_irq_thread\<close>; no thread is registered for NULL.\<close>

definition call_ths_irq_thread :: "gpadc_header \<Rightarrow> sun4i_gpadc_iio \<Rightarrow> sun4i_gpadc_iio" where
  "call_ths_irq_thread hw info =
     (case ths_irq_thread (data info) of
        None \<Rightarrow> info
      | Some Sun4i_gpadc_data_irq_handler \<Rightarrow> fst (sun4i_gpadc_data_irq_handler hw info)
      | Some Sunx8i_h3_irq_thread \<Rightarrow> fst (sunx8i_h3_irq_thread hw info))"

subsection \<open>Waiting for the completion\<close>

text \<open>
  The interrupt is asynchronous. The model delivers it while the request waits:
  \<^verbatim>\<open>nirq\<close> is the number of times the hardware raises the line within the deadline, and
  each of them runs the registered thread if the line is enabled (disable depth 0).
  \<^verbatim>\<open>wait_for_completion_timeout\<close> then consumes one posted signal and returns a
  positive remaining time, or returns 0 when none was posted: the timeout.
\<close>

fun deliver_irqs :: "gpadc_header \<Rightarrow> nat \<Rightarrow> sun4i_gpadc_iio \<Rightarrow> sun4i_gpadc_iio" where
  "deliver_irqs hw 0 s = s"
| "deliver_irqs hw (Suc n) s =
     deliver_irqs hw n (if irq_depth s = 0 then call_ths_irq_thread hw s else s)"

definition wait_for_completion_timeout ::
  "gpadc_header \<Rightarrow> nat \<Rightarrow> sun4i_gpadc_iio \<Rightarrow> nat \<Rightarrow> sun4i_gpadc_iio \<times> nat" where
  "wait_for_completion_timeout hw nirq s ms =
     (let s1 = log (Wait_for_completion_timeout ms) s;
          s2 = deliver_irqs hw nirq s1
      in if completion s2 = 0 then (s2, 0)
         else (s2\<lparr>completion := completion s2 - 1\<rparr>, 1))"

subsection \<open>A measurement request\<close>

definition sun4i_gpadc_irq_init ::
  "gpadc_header \<Rightarrow> sun4i_gpadc_iio \<Rightarrow> sun4i_gpadc_iio \<times> int" where
  "sun4i_gpadc_irq_init hw info =
     (let reg = (if irq_data_type info = SUN4I_GPADC_IRQ_FIFO_DATA hw
                 then SUN4I_GPADC_INT_FIFOC_TEMP_IRQ_EN hw
                 else SUN4I_GPADC_INT_FIFOC_TEMP_IRQ_EN hw);
          (s1, _) = regmap_write info (SUN4I_GPADC_INT_FIFOC hw) reg
      in (s1, 0))"

text \<open>
  \<^verbatim>\<open>sun4i_prepare_for_irq\<close>. The result is \<^verbatim>\<open>None\<close> where the code calls the NULL
  \<^verbatim>\<open>adc_chan_select\<close> pointer of a profile without voltage channels (a kernel oops).
  The local \<^verbatim>\<open>reg\<close> is uninitialised before the read of CTRL1 and is used only after
  that read succeeded, so the content given to the read (0) is never observed.
\<close>

definition sun4i_prepare_for_irq ::
  "gpadc_header \<Rightarrow> sun4i_gpadc_iio \<Rightarrow> u32 \<Rightarrow> u32 \<Rightarrow> (sun4i_gpadc_iio \<times> int) option" where
  "sun4i_prepare_for_irq hw info0 channel irqt =
     (let s1 = pm_runtime_get_sync info0;
          s2 = reinit_completion s1;
          (s3, ret) = regmap_write s2 (SUN4I_GPADC_INT_FIFOC hw)
                        (SUN4I_GPADC_INT_FIFOC_TP_FIFO_TRIG_LEVEL hw 1 OR
                         SUN4I_GPADC_INT_FIFOC_TP_FIFO_FLUSH hw)
      in if ret \<noteq> 0 then Some (s3, ret) else
         (let (s4, ret, reg) = regmap_read s3 (SUN4I_GPADC_CTRL1 hw) 0
          in if ret \<noteq> 0 then Some (s4, ret) else
             (case (if irqt = SUN4I_GPADC_IRQ_FIFO_DATA hw then
                      (case adc_chan_select (data s4) of
                         None \<Rightarrow> None
                       | Some f \<Rightarrow>
                           (let (s5, ret) = regmap_write s4 (SUN4I_GPADC_CTRL1 hw)
                                              (tp_mode_en (data s4) OR tp_adc_select (data s4) OR
                                               call_chan_select hw f channel)
                            in Some (if reg AND adc_chan_mask (data s5) \<noteq>
                                        call_chan_select hw f channel
                                     then mdelay 10 s5 else s5, ret)))
                    else Some (regmap_write s4 (SUN4I_GPADC_CTRL1 hw) (tp_mode_en (data s4)))) of
                None \<Rightarrow> None
              | Some (s6, ret) \<Rightarrow>
                  (let s7 = (if support_irq (data s6) then fst (sun4i_gpadc_irq_init hw s6) else s6)
                   in if ret \<noteq> 0 then Some (s7, ret) else
                      Some (if reg AND tp_adc_select (data s7) \<noteq> tp_adc_select (data s7)
                            then mdelay 100 s7 else s7, 0)))))"

text \<open>The code after the label \<^verbatim>\<open>err\<close> of \<^verbatim>\<open>sun4i_gpadc_read\<close>.\<close>

definition sun4i_gpadc_read_err ::
  "sun4i_gpadc_iio \<Rightarrow> int \<Rightarrow> u32 \<Rightarrow> sun4i_gpadc_iio \<times> int \<times> u32" where
  "sun4i_gpadc_read_err info ret val =
     (mutex_unlock (disable_irq (pm_runtime_put_autosuspend info)), ret, val)"

text \<open>
  \<^verbatim>\<open>sun4i_gpadc_read\<close>: \<^verbatim>\<open>val\<close> is the content of the caller's \<^verbatim>\<open>*val\<close> before the call,
  the third component of the result its content after.
\<close>

definition sun4i_gpadc_read ::
  "gpadc_header \<Rightarrow> nat \<Rightarrow> sun4i_gpadc_iio \<Rightarrow> u32 \<Rightarrow> u32 \<Rightarrow> u32 \<Rightarrow>
     (sun4i_gpadc_iio \<times> int \<times> u32) option" where
  "sun4i_gpadc_read hw nirq info0 channel val irqt =
     (let s1 = mutex_lock info0;
          s2 = s1\<lparr>irq_data_type := irqt\<rparr>
      in case sun4i_prepare_for_irq hw s2 channel irqt of
           None \<Rightarrow> None
         | Some (s3, ret) \<Rightarrow>
             if ret \<noteq> 0 then Some (sun4i_gpadc_read_err s3 ret val) else
             (let s4 = enable_irq s3;
                  (s5, t) = wait_for_completion_timeout hw nirq s4 1000
              in if t = 0 then Some (sun4i_gpadc_read_err s5 (- ETIMEDOUT hw) val) else
                 (let val' = (if irqt = SUN4I_GPADC_IRQ_FIFO_DATA hw
                              then adc_data s5 else temp_data s5);
                      s6 = pm_runtime_mark_last_busy s5
                  in Some (sun4i_gpadc_read_err s6 0 val'))))"

definition sun4i_gpadc_adc_read ::
  "gpadc_header \<Rightarrow> nat \<Rightarrow> sun4i_gpadc_iio \<Rightarrow> u32 \<Rightarrow> u32 \<Rightarrow>
     (sun4i_gpadc_iio \<times> int \<times> u32) option" where
  "sun4i_gpadc_adc_read hw nirq info channel val =
     sun4i_gpadc_read hw nirq info channel val (SUN4I_GPADC_IRQ_FIFO_DATA hw)"

definition sun4i_gpadc_temp_read ::
  "gpadc_header \<Rightarrow> nat \<Rightarrow> sun4i_gpadc_iio \<Rightarrow> u32 \<Rightarrow> u32 \<Rightarrow>
     (sun4i_gpadc_iio \<times> int \<times> u32) option" where
  "sun4i_gpadc_temp_read hw nirq info val sensor =
     (if adc_channel (data info) then
        sun4i_gpadc_read hw nirq info 0 val (SUN4I_GPADC_IRQ_TEMP_DATA hw)
      else
        (let s1 = pm_runtime_get_sync info;
             (s2, _, val') = regmap_read s1 (temp_data_base (data s1) + 4 * sensor) val;
             s3 = pm_runtime_mark_last_busy s2;
             s4 = pm_runtime_put_autosuspend s3
         in Some (s4, 0, val')))"

definition sun4i_gpadc_temp_offset :: "sun4i_gpadc_iio \<Rightarrow> int \<times> u32" where
  "sun4i_gpadc_temp_offset info = (0, temp_offset (data info))"

definition sun4i_gpadc_temp_scale :: "sun4i_gpadc_iio \<Rightarrow> int \<times> u32" where
  "sun4i_gpadc_temp_scale info = (0, temp_scale (data info))"

subsection \<open>The IIO read callback\<close>

datatype iio_chan_type = IIO_VOLTAGE | IIO_CURRENT | IIO_POWER | IIO_ACCEL | IIO_TEMP

datatype iio_chan_info_enum =
    IIO_CHAN_INFO_RAW
  | IIO_CHAN_INFO_PROCESSED
  | IIO_CHAN_INFO_SCALE
  | IIO_CHAN_INFO_OFFSET
  | IIO_CHAN_INFO_CALIBSCALE
  | IIO_CHAN_INFO_CALIBBIAS

record iio_chan_spec =
  chan_type :: iio_chan_type
  channel :: u32

text \<open>
  \<^verbatim>\<open>sun4i_gpadc_read_raw\<close>: the result carries the return code and the contents of
  \<^verbatim>\<open>*val\<close> and \<^verbatim>\<open>*val2\<close> after the call.
\<close>

definition sun4i_gpadc_read_raw ::
  "gpadc_header \<Rightarrow> nat \<Rightarrow> sun4i_gpadc_iio \<Rightarrow> iio_chan_spec \<Rightarrow> u32 \<Rightarrow> u32 \<Rightarrow>
     iio_chan_info_enum \<Rightarrow> (sun4i_gpadc_iio \<times> int \<times> u32 \<times> u32) option" where
  "sun4i_gpadc_read_raw hw nirq info chan val val2 msk =
     (case msk of
        IIO_CHAN_INFO_OFFSET \<Rightarrow>
          (let (ret, val') = sun4i_gpadc_temp_offset info
           in if ret \<noteq> 0 then Some (info, ret, val', val2)
              else Some (info, IIO_VAL_INT hw, val', val2))
      | IIO_CHAN_INFO_RAW \<Rightarrow>
          (case (if chan_type chan = IIO_VOLTAGE
                 then sun4i_gpadc_adc_read hw nirq info (channel chan) val
                 else sun4i_gpadc_temp_read hw nirq info val 0) of
             None \<Rightarrow> None
           | Some (s1, ret, val') \<Rightarrow>
               if ret \<noteq> 0 then Some (s1, ret, val', val2)
               else Some (s1, IIO_VAL_INT hw, val', val2))
      | IIO_CHAN_INFO_SCALE \<Rightarrow>
          if chan_type chan = IIO_VOLTAGE
          then Some (info, IIO_VAL_INT_PLUS_NANO hw, 0, 732421875)
          else
            (let (ret, val') = sun4i_gpadc_temp_scale info
             in if ret \<noteq> 0 then Some (info, ret, val', val2)
                else Some (info, IIO_VAL_INT hw, val', val2))
      | _ \<Rightarrow> Some (info, - EINVAL hw, val, val2))"

subsection \<open>Runtime suspend and resume\<close>

definition sun8i_h3_calibrate :: "sun4i_gpadc_iio \<Rightarrow> sun4i_gpadc_iio \<times> int" where
  "sun8i_h3_calibrate info = (info, 0)"

definition sun4i_ths_suspend :: "gpadc_header \<Rightarrow> sun4i_gpadc_iio \<Rightarrow> sun4i_gpadc_iio \<times> int" where
  "sun4i_ths_suspend hw info =
     (let (s1, _) = regmap_write info (SUN4I_GPADC_CTRL1 hw) 0;
          (s2, _) = regmap_write s1 (SUN4I_GPADC_TPR hw) 0;
          (s3, _) = regmap_write s2 (SUN4I_GPADC_INT_FIFOC hw) 0
      in (s3, 0))"

definition sun8i_h3_ths_suspend :: "gpadc_header \<Rightarrow> sun4i_gpadc_iio \<Rightarrow> sun4i_gpadc_iio \<times> int" where
  "sun8i_h3_ths_suspend hw info =
     (let (s1, _) = regmap_write info (SUN8I_H3_THS_INTC hw) 0;
          (s2, _) = regmap_write s1 (SUN8I_H3_THS_CTRL2 hw) 0
      in (s2, 0))"

definition sun4i_gpadc_runtime_suspend ::
  "gpadc_header \<Rightarrow> sun4i_gpadc_iio \<Rightarrow> sun4i_gpadc_iio \<times> int" where
  "sun4i_gpadc_runtime_suspend hw info =
     (case ths_suspend (data info) of
        Sun4i_ths_suspend \<Rightarrow> sun4i_ths_suspend hw info
      | Sun8i_h3_ths_suspend \<Rightarrow> sun8i_h3_ths_suspend hw info)"

definition sun4i_ths_resume :: "gpadc_header \<Rightarrow> sun4i_gpadc_iio \<Rightarrow> sun4i_gpadc_iio \<times> int" where
  "sun4i_ths_resume hw info =
     (let (s1, _) = regmap_write info (SUN4I_GPADC_CTRL0 hw)
                      (SUN4I_GPADC_CTRL0_ADC_CLK_DIVIDER hw 2 OR
                       SUN4I_GPADC_CTRL0_FS_DIV hw 7 OR
                       SUN4I_GPADC_CTRL0_T_ACQ hw 63);
          (s2, _) = regmap_write s1 (SUN4I_GPADC_CTRL1 hw) (tp_mode_en (data s1));
          (s3, _) = regmap_write s2 (SUN4I_GPADC_CTRL3 hw)
                      (SUN4I_GPADC_CTRL3_FILTER_EN hw OR
                       SUN4I_GPADC_CTRL3_FILTER_TYPE hw 1);
          (s4, _) = regmap_write s3 (SUN4I_GPADC_TPR hw)
                      (SUN4I_GPADC_TPR_TEMP_ENABLE hw OR
                       SUN4I_GPADC_TPR_TEMP_PERIOD hw 800)
      in (s4, 0))"

text \<open>
  \<^verbatim>\<open>sun8i_h3_ths_resume\<close>. The local \<^verbatim>\<open>value\<close> is uninitialised and the return code of
  the read that fills it is ignored: \<^verbatim>\<open>value0\<close> is what the stack slot holds before
  the read, and is what the code uses when the read fails.
\<close>

definition sun8i_h3_ths_resume ::
  "gpadc_header \<Rightarrow> u32 \<Rightarrow> sun4i_gpadc_iio \<Rightarrow> sun4i_gpadc_iio \<times> int" where
  "sun8i_h3_ths_resume hw value0 info =
     (let (s0, _) = sun8i_h3_calibrate info;
          (s1, _) = regmap_write s0 (SUN8I_H3_THS_CTRL0 hw) (SUN4I_GPADC_CTRL0_T_ACQ hw 0xff);
          (s2, _) = regmap_write s1 (SUN8I_H3_THS_CTRL2 hw) (SUN8I_H3_THS_ACQ1 hw 0x3f);
          (s3, _) = regmap_write s2 (SUN8I_H3_THS_STAT hw) (SUN8I_H3_THS_INTS_TDATA_IRQ_0 hw);
          (s4, _) = regmap_write s3 (SUN8I_H3_THS_FILTER hw)
                      (SUN4I_GPADC_CTRL3_FILTER_EN hw OR
                       SUN4I_GPADC_CTRL3_FILTER_TYPE hw 0x2);
          (s5, _) = regmap_write s4 (SUN8I_H3_THS_INTC hw)
                      (SUN8I_H3_THS_INTC_TDATA_IRQ_EN0 hw OR
                       SUN8I_H3_THS_TEMP_PERIOD hw 0x55);
          (s6, _, value) = regmap_read s5 (SUN8I_H3_THS_CTRL2 hw) value0;
          (s7, _) = regmap_write s6 (SUN8I_H3_THS_CTRL2 hw)
                      (SUN8I_H3_THS_TEMP_SENSE_EN0 hw OR value)
      in (s7, 0))"

definition sun4i_gpadc_runtime_resume ::
  "gpadc_header \<Rightarrow> u32 \<Rightarrow> sun4i_gpadc_iio \<Rightarrow> sun4i_gpadc_iio \<times> int" where
  "sun4i_gpadc_runtime_resume hw value0 info =
     (case ths_resume (data info) of
        Sun4i_ths_resume \<Rightarrow> sun4i_ths_resume hw info
      | Sun8i_h3_ths_resume \<Rightarrow> sun8i_h3_ths_resume hw value0 info)"

subsection \<open>The thermal zone callback\<close>

text \<open>
  \<^verbatim>\<open>sun4i_gpadc_get_temp\<close>: \<^verbatim>\<open>sensor_id\<close> is \<^verbatim>\<open>tzd->sensor_id\<close>, \<^verbatim>\<open>temp\<close> the content
  of \<^verbatim>\<open>*temp\<close> before the call and \<^verbatim>\<open>val0\<close> the content of the uninitialised local
  \<^verbatim>\<open>val\<close>.
\<close>

definition sun4i_gpadc_get_temp ::
  "gpadc_header \<Rightarrow> nat \<Rightarrow> u32 \<Rightarrow> sun4i_gpadc_iio \<Rightarrow> u32 \<Rightarrow> u32 \<Rightarrow>
     (sun4i_gpadc_iio \<times> int \<times> u32) option" where
  "sun4i_gpadc_get_temp hw nirq val0 info sensor_id temp =
     (case sun4i_gpadc_temp_read hw nirq info val0 sensor_id of
        None \<Rightarrow> None
      | Some (s1, ret, val) \<Rightarrow>
          if ret \<noteq> 0 then Some (s1, - ETIMEDOUT hw, temp) else
          (let (_, scale) = sun4i_gpadc_temp_scale s1;
               (_, offset) = sun4i_gpadc_temp_offset s1
           in Some (s1, 0, (val + offset) * scale)))"

subsection \<open>Binding: sun4i\_gpadc\_probe\_dt\<close>

text \<open>
  What the platform gives the probe. A pointer result is either a valid pointer or
  \<^verbatim>\<open>ERR_PTR\<close> of an error code (\<^verbatim>\<open>PTR_ERR\<close> is only ever applied to the latter; on a
  valid pointer the model gives 0). The calibration cell is
  either the error of \<^verbatim>\<open>nvmem_cell_get\<close> or the bytes \<^verbatim>\<open>nvmem_cell_read\<close> returns, whose
  number is \<^verbatim>\<open>cell_size\<close>. (A failing \<^verbatim>\<open>nvmem_cell_read\<close>, which the code does not
  check for, is not part of the model.)
\<close>

datatype ptr = Valid_ptr | ERR_PTR int

datatype nvmem_cell = Cell_err int | Cell "8 word list"

record platform_device =
  of_match_data :: "gpadc_data option"
  ioremap_resource :: ptr
  nvmem_calibration :: nvmem_cell
  regmap_init :: ptr
  platform_irq :: nat
  request_irq_ret :: int
  reset_control_get :: ptr
  reset_deassert_ret :: int
  bus_clk_get :: ptr
  bus_clk_enable_ret :: int
  mod_clk_get :: ptr
  mod_clk_set_rate_ret :: int
  mod_clk_enable_ret :: int

fun IS_ERR :: "ptr \<Rightarrow> bool" where
  "IS_ERR (ERR_PTR e) = True"
| "IS_ERR Valid_ptr = False"

fun PTR_ERR :: "ptr \<Rightarrow> int" where
  "PTR_ERR (ERR_PTR e) = e"
| "PTR_ERR Valid_ptr = 0"

text \<open>
  \<^verbatim>\<open>cell_data[i]\<close>: the buffer of bytes read as an array of \<^verbatim>\<open>u32\<close>. The SoCs the
  driver binds to are little-endian ARM, so word \<^verbatim>\<open>i\<close> is made of bytes \<^verbatim>\<open>4i .. 4i+3\<close>,
  the lowest address in the lowest bits.
\<close>

definition le32 :: "8 word list \<Rightarrow> u32" where
  "le32 bs = foldr (\<lambda>b w. ucast b OR push_bit 8 w) bs 0"

definition cell_data :: "8 word list \<Rightarrow> nat \<Rightarrow> u32" where
  "cell_data bs i = le32 (take 4 (drop (4 * i) bs))"

text \<open>Lines 614 to 630: the calibration cell. A return code other than 0 leaves the probe.\<close>

definition probe_dt_nvmem ::
  "gpadc_header \<Rightarrow> platform_device \<Rightarrow> sun4i_gpadc_iio \<Rightarrow> sun4i_gpadc_iio \<times> int" where
  "probe_dt_nvmem hw pdev info =
     (if supports_nvmem (data info) then
        (case nvmem_calibration pdev of
           Cell_err e \<Rightarrow> if e = - EPROBE_DEFER hw then (info, e) else (info, 0)
         | Cell bs \<Rightarrow>
             if int (length bs) \<noteq> 8
             then (log (Dev_err ''Calibration data has wrong size'') info, 0)
             else (info\<lparr>calibration_data := (cell_data bs 0, cell_data bs 1)\<rparr>, 0))
      else (info, 0))"

text \<open>Lines 645 to 661: the interrupt.\<close>

definition probe_dt_irq ::
  "platform_device \<Rightarrow> sun4i_gpadc_iio \<Rightarrow> sun4i_gpadc_iio \<times> int" where
  "probe_dt_irq pdev info =
     (if support_irq (data info) then
        (let s1 = info\<lparr>irq := platform_irq pdev\<rparr>;
             ret = request_irq_ret pdev;
             s2 = (if adc_channel (data s1) then disable_irq s1 else s1)
         in if ret \<noteq> 0 then (log (Dev_err ''failed to add ths irq'') s2, ret) else (s2, 0))
      else (info, 0))"

text \<open>Lines 663 to 715: reset line and clocks, with the two unwinding labels.\<close>

definition probe_dt_assert_reset :: "sun4i_gpadc_iio \<Rightarrow> int \<Rightarrow> sun4i_gpadc_iio \<times> int" where
  "probe_dt_assert_reset info ret = (log Reset_control_assert info, ret)"

definition probe_dt_disable_bus_clk :: "sun4i_gpadc_iio \<Rightarrow> int \<Rightarrow> sun4i_gpadc_iio \<times> int" where
  "probe_dt_disable_bus_clk info ret =
     probe_dt_assert_reset (log (Clk_disable_unprepare Bus_clk) info) ret"

definition probe_dt_mod_clk ::
  "platform_device \<Rightarrow> sun4i_gpadc_iio \<Rightarrow> sun4i_gpadc_iio \<times> int" where
  "probe_dt_mod_clk pdev info =
     (if has_mod_clk (data info) then
        (if IS_ERR (mod_clk_get pdev)
         then probe_dt_disable_bus_clk info (PTR_ERR (mod_clk_get pdev)) else
         (let s1 = log (Clk_set_rate Mod_clk 4000000) info
          in if mod_clk_set_rate_ret pdev \<noteq> 0
             then probe_dt_disable_bus_clk s1 (mod_clk_set_rate_ret pdev) else
             (let s2 = log (Clk_prepare_enable Mod_clk) s1
              in if mod_clk_enable_ret pdev \<noteq> 0
                 then probe_dt_disable_bus_clk s2 (mod_clk_enable_ret pdev)
                 else (s2, 0))))
      else (info, 0))"

definition probe_dt_bus_clk ::
  "platform_device \<Rightarrow> sun4i_gpadc_iio \<Rightarrow> sun4i_gpadc_iio \<times> int" where
  "probe_dt_bus_clk pdev info =
     (if has_bus_clk (data info) then
        (if IS_ERR (bus_clk_get pdev)
         then probe_dt_assert_reset info (PTR_ERR (bus_clk_get pdev)) else
         (let s1 = log (Clk_prepare_enable Bus_clk) info
          in if bus_clk_enable_ret pdev \<noteq> 0
             then probe_dt_assert_reset s1 (bus_clk_enable_ret pdev)
             else probe_dt_mod_clk pdev s1))
      else probe_dt_mod_clk pdev info)"

definition probe_dt_reset ::
  "platform_device \<Rightarrow> sun4i_gpadc_iio \<Rightarrow> sun4i_gpadc_iio \<times> int" where
  "probe_dt_reset pdev info =
     (if has_bus_rst (data info) then
        (if IS_ERR (reset_control_get pdev) then (info, PTR_ERR (reset_control_get pdev)) else
         (let s1 = log Reset_control_deassert info
          in if reset_deassert_ret pdev \<noteq> 0 then (s1, reset_deassert_ret pdev)
             else probe_dt_bus_clk pdev s1))
      else probe_dt_bus_clk pdev info)"

definition sun4i_gpadc_probe_dt ::
  "gpadc_header \<Rightarrow> platform_device \<Rightarrow> sun4i_gpadc_iio \<Rightarrow> sun4i_gpadc_iio \<times> int" where
  "sun4i_gpadc_probe_dt hw pdev info0 =
     (case of_match_data pdev of
        None \<Rightarrow> (info0, - ENODEV hw)
      | Some d \<Rightarrow>
          (let info = info0\<lparr>data := d\<rparr>
           in if IS_ERR (ioremap_resource pdev) then (info, PTR_ERR (ioremap_resource pdev)) else
              (let (s1, ret) = probe_dt_nvmem hw pdev info
               in if ret \<noteq> 0 then (s1, ret) else
                  if IS_ERR (regmap_init pdev)
                  then (log (Dev_err ''failed to init regmap'') s1, PTR_ERR (regmap_init pdev)) else
                  (let (s2, ret) = probe_dt_irq pdev s1
                   in if ret \<noteq> 0 then (s2, ret) else probe_dt_reset pdev s2))))"

subsection \<open>A concrete header and a bound device, for closed examples\<close>

text \<open>
  An instance of the header with the register layout of the A10 GPADC and the H3 thermal
  sensor: offsets in bytes, single-bit masks, and field macros that mask and shift their
  argument. It only serves to evaluate the driver on concrete inputs.
\<close>

definition example_header :: gpadc_header where
  "example_header =
     \<lparr> SUN4I_GPADC_CTRL0 = 0x00,
       SUN4I_GPADC_CTRL0_ADC_CLK_DIVIDER = (\<lambda>x. push_bit 20 (0x3 AND x)),
       SUN4I_GPADC_CTRL0_FS_DIV = (\<lambda>x. push_bit 16 (0xf AND x)),
       SUN4I_GPADC_CTRL0_T_ACQ = (\<lambda>x. 0xffff AND x),
       SUN4I_GPADC_CTRL1 = 0x04,
       SUN4I_GPADC_CTRL1_TP_MODE_EN = 0x10,
       SUN4I_GPADC_CTRL1_TP_ADC_SELECT = 0x8,
       SUN4I_GPADC_CTRL1_ADC_CHAN_SELECT = (\<lambda>x. 0x7 AND x),
       SUN4I_GPADC_CTRL1_ADC_CHAN_MASK = 0x7,
       SUN6I_GPADC_CTRL1_TP_MODE_EN = 0x20,
       SUN6I_GPADC_CTRL1_TP_ADC_SELECT = 0x10,
       SUN6I_GPADC_CTRL1_ADC_CHAN_SELECT = (\<lambda>x. 0xf AND push_bit (unat x) 1),
       SUN6I_GPADC_CTRL1_ADC_CHAN_MASK = 0xf,
       SUN8I_A33_GPADC_CTRL1_CHOP_TEMP_EN = 0x100,
       SUN4I_GPADC_CTRL3 = 0x0c,
       SUN4I_GPADC_CTRL3_FILTER_EN = 0x4,
       SUN4I_GPADC_CTRL3_FILTER_TYPE = (\<lambda>x. 0x3 AND x),
       SUN4I_GPADC_TPR = 0x18,
       SUN4I_GPADC_TPR_TEMP_ENABLE = 0x10000,
       SUN4I_GPADC_TPR_TEMP_PERIOD = (\<lambda>x. 0xffff AND x),
       SUN4I_GPADC_INT_FIFOC = 0x10,
       SUN4I_GPADC_INT_FIFOC_TEMP_IRQ_EN = 0x40000,
       SUN4I_GPADC_INT_FIFOC_TP_FIFO_TRIG_LEVEL = (\<lambda>x. push_bit 8 (0x1f AND x)),
       SUN4I_GPADC_INT_FIFOC_TP_FIFO_FLUSH = 0x10,
       SUN4I_GPADC_TEMP_DATA = 0x20,
       SUN4I_GPADC_DATA = 0x24,
       SUN4I_GPADC_IRQ_FIFO_DATA = 0,
       SUN4I_GPADC_IRQ_TEMP_DATA = 1,
       SUN8I_H3_THS_CTRL0 = 0x00,
       SUN8I_H3_THS_CTRL2 = 0x40,
       SUN8I_H3_THS_ACQ1 = (\<lambda>x. push_bit 16 (0xffff AND x)),
       SUN8I_H3_THS_TEMP_SENSE_EN0 = 0x1,
       SUN8I_H3_THS_INTC = 0x44,
       SUN8I_H3_THS_INTC_TDATA_IRQ_EN0 = 0x100,
       SUN8I_H3_THS_TEMP_PERIOD = (\<lambda>x. push_bit 12 (0xfffff AND x)),
       SUN8I_H3_THS_STAT = 0x48,
       SUN8I_H3_THS_INTS_TDATA_IRQ_0 = 0x100,
       SUN8I_H3_THS_FILTER = 0x70,
       SUN8I_H3_THS_TDATA0 = 0x80,
       ENODEV = 19, EINVAL = 22, ETIMEDOUT = 110, EPROBE_DEFER = 517,
       IIO_VAL_INT = 1, IIO_VAL_INT_PLUS_NANO = 3 \<rparr>"

text \<open>
  A device as the probe leaves it: zeroed by the allocation, bound to profile \<^verbatim>\<open>d\<close>,
  with the interrupt line at the given disable depth.
\<close>

definition bound_device :: "gpadc_data \<Rightarrow> nat \<Rightarrow> sun4i_gpadc_iio" where
  "bound_device d depth =
     \<lparr> completion = 0, temp_data = 0, adc_data = 0, irq_data_type = 0,
       regmap = (\<lambda>_. 0), irq = 0, data = d, mutex = False,
       calibration_data = (0, 0), irq_depth = depth, pm_usage = 0,
       faults = [], trace = [] \<rparr>"

text \<open>A platform device on which every resource is available, with a calibration cell.\<close>

definition example_pdev :: "gpadc_data \<Rightarrow> 8 word list \<Rightarrow> platform_device" where
  "example_pdev d bs =
     \<lparr> of_match_data = Some d, ioremap_resource = Valid_ptr, nvmem_calibration = Cell bs,
       regmap_init = Valid_ptr, platform_irq = 31, request_irq_ret = 0, reset_control_get = Valid_ptr,
       reset_deassert_ret = 0, bus_clk_get = Valid_ptr, bus_clk_enable_ret = 0,
       mod_clk_get = Valid_ptr, mod_clk_set_rate_ret = 0, mod_clk_enable_ret = 0 \<rparr>"

subsection \<open>Notions used to state the properties\<close>

text \<open>The settling delays of a trace, in order, in milliseconds.\<close>

definition mdelays :: "event list \<Rightarrow> nat list" where
  "mdelays tr = concat (map (\<lambda>e. case e of Mdelay ms \<Rightarrow> [ms] | _ \<Rightarrow> []) tr)"

text \<open>
  What the read of CTRL2 in \<^verbatim>\<open>sun8i_h3_ths_resume\<close> finds when no access fails: the
  value of the last of the preceding writes that went to the address of CTRL2.
\<close>

definition h3_pre_ctrl2 :: "gpadc_header \<Rightarrow> u32" where
  "h3_pre_ctrl2 hw =
     (if SUN8I_H3_THS_INTC hw = SUN8I_H3_THS_CTRL2 hw
      then SUN8I_H3_THS_INTC_TDATA_IRQ_EN0 hw OR SUN8I_H3_THS_TEMP_PERIOD hw 0x55
      else if SUN8I_H3_THS_FILTER hw = SUN8I_H3_THS_CTRL2 hw
      then SUN4I_GPADC_CTRL3_FILTER_EN hw OR SUN4I_GPADC_CTRL3_FILTER_TYPE hw 0x2
      else if SUN8I_H3_THS_STAT hw = SUN8I_H3_THS_CTRL2 hw
      then SUN8I_H3_THS_INTS_TDATA_IRQ_0 hw
      else SUN8I_H3_THS_ACQ1 hw 0x3f)"

section \<open>Properties\<close>

subsection \<open>What each step leaves alone\<close>

lemmas prim_defs = log_def mutex_lock_def mutex_unlock_def pm_runtime_get_sync_def
  pm_runtime_mark_last_busy_def pm_runtime_put_autosuspend_def reinit_completion_def
  complete_def mdelay_def enable_irq_def disable_irq_def regmap_write_def regmap_read_def

lemma fold_log:
  "fold (\<lambda>i. log (f i)) xs s = s\<lparr>trace := trace s @ map f xs\<rparr>"
  by (induction xs arbitrary: s) (simp_all add: log_def)

lemma data_irq_handler_frame:
  "irq_depth (fst (sun4i_gpadc_data_irq_handler hw s)) = irq_depth s"
  "pm_usage (fst (sun4i_gpadc_data_irq_handler hw s)) = pm_usage s"
  "data (fst (sun4i_gpadc_data_irq_handler hw s)) = data s"
  "mutex (fst (sun4i_gpadc_data_irq_handler hw s)) = mutex s"
  "irq_data_type (fst (sun4i_gpadc_data_irq_handler hw s)) = irq_data_type s"
  by (simp_all add: sun4i_gpadc_data_irq_handler_def prim_defs Let_def)

lemma h3_irq_thread_frame:
  "irq_depth (fst (sunx8i_h3_irq_thread hw s)) = irq_depth s"
  "pm_usage (fst (sunx8i_h3_irq_thread hw s)) = pm_usage s"
  "data (fst (sunx8i_h3_irq_thread hw s)) = data s"
  "mutex (fst (sunx8i_h3_irq_thread hw s)) = mutex s"
  "irq_data_type (fst (sunx8i_h3_irq_thread hw s)) = irq_data_type s"
  by (simp_all add: sunx8i_h3_irq_thread_def fold_log prim_defs Let_def)

lemma call_ths_irq_thread_frame:
  "irq_depth (call_ths_irq_thread hw s) = irq_depth s"
  "pm_usage (call_ths_irq_thread hw s) = pm_usage s"
  "data (call_ths_irq_thread hw s) = data s"
  "mutex (call_ths_irq_thread hw s) = mutex s"
  "irq_data_type (call_ths_irq_thread hw s) = irq_data_type s"
  by (simp_all add: call_ths_irq_thread_def data_irq_handler_frame h3_irq_thread_frame
        split: option.splits irq_thread_fn.splits)

lemma deliver_irqs_frame:
  "irq_depth (deliver_irqs hw n s) = irq_depth s \<and>
   pm_usage (deliver_irqs hw n s) = pm_usage s \<and>
   data (deliver_irqs hw n s) = data s \<and>
   mutex (deliver_irqs hw n s) = mutex s \<and>
   irq_data_type (deliver_irqs hw n s) = irq_data_type s"
  by (induction n arbitrary: s) (simp_all add: call_ths_irq_thread_frame)

lemma wait_frame:
  assumes "wait_for_completion_timeout hw n s ms = (s', t)"
  shows "irq_depth s' = irq_depth s" "pm_usage s' = pm_usage s" "data s' = data s"
        "mutex s' = mutex s" "irq_data_type s' = irq_data_type s"
  using assms deliver_irqs_frame [of hw n "log (Wait_for_completion_timeout ms) s"]
  by (auto simp: wait_for_completion_timeout_def Let_def log_def split: if_splits)

lemma irq_init_frame:
  "irq_depth (fst (sun4i_gpadc_irq_init hw s)) = irq_depth s"
  "pm_usage (fst (sun4i_gpadc_irq_init hw s)) = pm_usage s"
  "data (fst (sun4i_gpadc_irq_init hw s)) = data s"
  "mutex (fst (sun4i_gpadc_irq_init hw s)) = mutex s"
  "irq_data_type (fst (sun4i_gpadc_irq_init hw s)) = irq_data_type s"
  "completion (fst (sun4i_gpadc_irq_init hw s)) = completion s"
  by (simp_all add: sun4i_gpadc_irq_init_def prim_defs Let_def)

lemma prepare_frame:
  assumes "sun4i_prepare_for_irq hw s ch irqt = Some (s', r)"
  shows "irq_depth s' = irq_depth s" "pm_usage s' = pm_usage s + 1" "data s' = data s"
        "mutex s' = mutex s" "irq_data_type s' = irq_data_type s" "completion s' = 0"
  using assms
  by (auto simp: sun4i_prepare_for_irq_def irq_init_frame prim_defs Let_def
           split: if_splits option.splits)

lemma next_fault_upd [simp]:
  "next_fault (s\<lparr>trace := t\<rparr>) = next_fault s"
  "next_fault (s\<lparr>completion := c\<rparr>) = next_fault s"
  "next_fault (s\<lparr>pm_usage := p\<rparr>) = next_fault s"
  "next_fault (s\<lparr>regmap := r\<rparr>) = next_fault s"
  "next_fault (s\<lparr>irq_data_type := i\<rparr>) = next_fault s"
  "next_fault (s\<lparr>mutex := m\<rparr>) = next_fault s"
  "next_fault (s\<lparr>irq_depth := d\<rparr>) = next_fault s"
  "next_fault (s\<lparr>adc_data := a\<rparr>) = next_fault s"
  "next_fault (s\<lparr>temp_data := a\<rparr>) = next_fault s"
  by (simp_all add: next_fault_def)

lemma prepare_trace:
  assumes "sun4i_prepare_for_irq hw s ch irqt = Some (s', r)"
  shows "\<exists>evs. trace s' = trace s @
            [Pm_runtime_get_sync, Reinit_completion,
             Regmap_write (SUN4I_GPADC_INT_FIFOC hw)
               (SUN4I_GPADC_INT_FIFOC_TP_FIFO_TRIG_LEVEL hw 1 OR
                SUN4I_GPADC_INT_FIFOC_TP_FIFO_FLUSH hw) (next_fault s)] @ evs"
  using assms
  by (auto simp: sun4i_prepare_for_irq_def sun4i_gpadc_irq_init_def prim_defs Let_def
           split: if_splits option.splits)

lemma prepare_quiet:
  assumes "sun4i_prepare_for_irq hw s ch irqt = Some (s', r)"
  shows "\<exists>evs. trace s' = trace s @ evs \<and>
          (\<forall>e \<in> set evs. e \<noteq> Enable_irq \<and> e \<noteq> Disable_irq \<and>
                           (\<forall>ms. e \<noteq> Wait_for_completion_timeout ms))"
  using assms
  by (auto simp: sun4i_prepare_for_irq_def sun4i_gpadc_irq_init_def prim_defs Let_def
           split: if_splits option.splits)

lemmas eval_defs = prim_defs next_fault_def sun4i_gpadc_read_def sun4i_prepare_for_irq_def
  sun4i_gpadc_irq_init_def sun4i_gpadc_read_err_def wait_for_completion_timeout_def
  call_ths_irq_thread_def sun4i_gpadc_data_irq_handler_def sunx8i_h3_irq_thread_def
  sun4i_gpadc_chan_select_def sun6i_gpadc_chan_select_def
  sun4i_gpadc_adc_read_def sun4i_gpadc_temp_read_def sun4i_gpadc_temp_offset_def
  sun4i_gpadc_temp_scale_def sun4i_gpadc_get_temp_def
  bound_device_def example_header_def Let_def

lemma call_ths_irq_thread_trace:
  "\<exists>evs. trace (call_ths_irq_thread hw s) = trace s @ evs"
  by (simp add: call_ths_irq_thread_def sun4i_gpadc_data_irq_handler_def
        sunx8i_h3_irq_thread_def fold_log prim_defs Let_def
        split: option.splits irq_thread_fn.splits)

lemma deliver_irqs_trace:
  "\<exists>evs. trace (deliver_irqs hw n s) = trace s @ evs"
proof (induction n arbitrary: s)
  case 0
  show ?case by simp
next
  case (Suc n)
  let ?s1 = "if irq_depth s = 0 then call_ths_irq_thread hw s else s"
  have "\<exists>e1. trace ?s1 = trace s @ e1"
    using call_ths_irq_thread_trace [of hw s] by (cases "irq_depth s = 0") simp_all
  then obtain e1 where e1: "trace ?s1 = trace s @ e1" by blast
  obtain e2 where e2: "trace (deliver_irqs hw n ?s1) = trace ?s1 @ e2"
    using Suc.IH [of ?s1] by blast
  have "trace (deliver_irqs hw (Suc n) s) = trace s @ (e1 @ e2)"
    using e1 e2 by simp
  then show ?case by blast
qed

lemma wait_trace:
  assumes "wait_for_completion_timeout hw n s ms = (s', t)"
  shows "\<exists>evs. trace s' = trace s @ Wait_for_completion_timeout ms # evs"
  using assms deliver_irqs_trace [of hw n "log (Wait_for_completion_timeout ms) s"]
  by (auto simp: wait_for_completion_timeout_def Let_def log_def split: if_splits)

lemma prepare_total:
  assumes "irqt = SUN4I_GPADC_IRQ_FIFO_DATA hw \<longrightarrow> adc_chan_select (data s) \<noteq> None"
  shows "\<exists>s' r. sun4i_prepare_for_irq hw s ch irqt = Some (s', r)"
  using assms
  by (auto simp: sun4i_prepare_for_irq_def prim_defs Let_def split: option.splits)

lemma prepare_no_fault:
  assumes "sun4i_prepare_for_irq hw s ch irqt = Some (s', r)" and "faults s = []"
  shows "r = 0 \<and> faults s' = [] \<and>
         (\<forall>f. irqt = SUN4I_GPADC_IRQ_FIFO_DATA hw \<longrightarrow> adc_chan_select (data s) = Some f \<longrightarrow>
            Regmap_write (SUN4I_GPADC_CTRL1 hw)
              (tp_mode_en (data s) OR tp_adc_select (data s) OR call_chan_select hw f ch) 0
              \<in> set (trace s'))"
  using assms
  by (auto simp: sun4i_prepare_for_irq_def sun4i_gpadc_irq_init_def prim_defs next_fault_def
           Let_def split: if_splits option.splits)

lemma gpadc_read_balanced:
  assumes "sun4i_gpadc_read hw nirq info ch val irqt = Some (s', ret, val')"
  shows "pm_usage s' = pm_usage info \<and> \<not> mutex s' \<and> irq_depth s' \<ge> 1"
proof -
  obtain s3 r where prep:
    "sun4i_prepare_for_irq hw ((mutex_lock info)\<lparr>irq_data_type := irqt\<rparr>) ch irqt = Some (s3, r)"
    using assms by (auto simp: sun4i_gpadc_read_def Let_def split: option.splits)
  note fr = prepare_frame [OF prep]
  obtain s5 t where w: "wait_for_completion_timeout hw nirq (enable_irq s3) 1000 = (s5, t)"
    by (cases "wait_for_completion_timeout hw nirq (enable_irq s3) 1000")
  note wf = wait_frame [OF w]
  show ?thesis
    using assms prep w fr wf
    by (auto simp: sun4i_gpadc_read_def sun4i_gpadc_read_err_def Let_def prim_defs
             split: if_splits)
qed

lemma mdelays_append [simp]: "mdelays (xs @ ys) = mdelays xs @ mdelays ys"
  by (simp add: mdelays_def)

lemma mdelays_simps [simp]:
  "mdelays [] = []"
  "mdelays (Mdelay ms # es) = ms # mdelays es"
  "mdelays (Regmap_write a b c # es) = mdelays es"
  "mdelays (Regmap_read a c # es) = mdelays es"
  "mdelays (Pm_runtime_get_sync # es) = mdelays es"
  "mdelays (Reinit_completion # es) = mdelays es"
  by (simp_all add: mdelays_def)

lemma prepare_delays:
  assumes "sun4i_prepare_for_irq hw s ch irqt = Some (s', r)" and "faults s = []"
      and "SUN4I_GPADC_INT_FIFOC hw \<noteq> SUN4I_GPADC_CTRL1 hw"
  shows "mdelays (trace s') = mdelays (trace s) @
           (if irqt = SUN4I_GPADC_IRQ_FIFO_DATA hw then
              (case adc_chan_select (data s) of
                 Some f \<Rightarrow> if regmap s (SUN4I_GPADC_CTRL1 hw) AND adc_chan_mask (data s) \<noteq>
                               call_chan_select hw f ch then [10] else []
               | None \<Rightarrow> [])
            else []) @
           (if regmap s (SUN4I_GPADC_CTRL1 hw) AND tp_adc_select (data s) \<noteq> tp_adc_select (data s)
            then [100] else [])"
  using assms
  by (auto simp: sun4i_prepare_for_irq_def sun4i_gpadc_irq_init_def prim_defs next_fault_def
           Let_def split: if_splits option.splits)

lemma regmap_write_ok:
  "faults s = [] \<Longrightarrow>
   regmap_write s reg v =
     (s\<lparr>regmap := (regmap s)(reg := v), trace := trace s @ [Regmap_write reg v 0]\<rparr>, 0)"
  by (simp add: regmap_write_def next_fault_def log_def Let_def)

lemma regmap_read_ok:
  "faults s = [] \<Longrightarrow>
   regmap_read s reg dst = (s\<lparr>trace := trace s @ [Regmap_read reg 0]\<rparr>, 0, regmap s reg)"
  by (simp add: regmap_read_def next_fault_def log_def Let_def)

lemma sun4i_ths_resume_ok:
  assumes "faults info = []"
  shows "sun4i_ths_resume hw info =
           (info\<lparr>regmap := (regmap info)
               (SUN4I_GPADC_CTRL0 hw :=
                  SUN4I_GPADC_CTRL0_ADC_CLK_DIVIDER hw 2 OR SUN4I_GPADC_CTRL0_FS_DIV hw 7 OR
                  SUN4I_GPADC_CTRL0_T_ACQ hw 63,
                SUN4I_GPADC_CTRL1 hw := tp_mode_en (data info),
                SUN4I_GPADC_CTRL3 hw :=
                  SUN4I_GPADC_CTRL3_FILTER_EN hw OR SUN4I_GPADC_CTRL3_FILTER_TYPE hw 1,
                SUN4I_GPADC_TPR hw :=
                  SUN4I_GPADC_TPR_TEMP_ENABLE hw OR SUN4I_GPADC_TPR_TEMP_PERIOD hw 800),
              trace := trace info @
               [Regmap_write (SUN4I_GPADC_CTRL0 hw)
                  (SUN4I_GPADC_CTRL0_ADC_CLK_DIVIDER hw 2 OR SUN4I_GPADC_CTRL0_FS_DIV hw 7 OR
                   SUN4I_GPADC_CTRL0_T_ACQ hw 63) 0,
                Regmap_write (SUN4I_GPADC_CTRL1 hw) (tp_mode_en (data info)) 0,
                Regmap_write (SUN4I_GPADC_CTRL3 hw)
                  (SUN4I_GPADC_CTRL3_FILTER_EN hw OR SUN4I_GPADC_CTRL3_FILTER_TYPE hw 1) 0,
                Regmap_write (SUN4I_GPADC_TPR hw)
                  (SUN4I_GPADC_TPR_TEMP_ENABLE hw OR SUN4I_GPADC_TPR_TEMP_PERIOD hw 800) 0]\<rparr>,
            0)"
  using assms by (simp add: sun4i_ths_resume_def regmap_write_ok)

lemma sun8i_h3_ths_resume_ok:
  assumes "faults info = []"
  shows "sun8i_h3_ths_resume hw v0 info =
           (info\<lparr>regmap := (regmap info)
               (SUN8I_H3_THS_CTRL0 hw := SUN4I_GPADC_CTRL0_T_ACQ hw 0xff,
                SUN8I_H3_THS_CTRL2 hw := SUN8I_H3_THS_ACQ1 hw 0x3f,
                SUN8I_H3_THS_STAT hw := SUN8I_H3_THS_INTS_TDATA_IRQ_0 hw,
                SUN8I_H3_THS_FILTER hw :=
                  SUN4I_GPADC_CTRL3_FILTER_EN hw OR SUN4I_GPADC_CTRL3_FILTER_TYPE hw 0x2,
                SUN8I_H3_THS_INTC hw :=
                  SUN8I_H3_THS_INTC_TDATA_IRQ_EN0 hw OR SUN8I_H3_THS_TEMP_PERIOD hw 0x55,
                SUN8I_H3_THS_CTRL2 hw := SUN8I_H3_THS_TEMP_SENSE_EN0 hw OR h3_pre_ctrl2 hw),
              trace := trace info @
               [Regmap_write (SUN8I_H3_THS_CTRL0 hw) (SUN4I_GPADC_CTRL0_T_ACQ hw 0xff) 0,
                Regmap_write (SUN8I_H3_THS_CTRL2 hw) (SUN8I_H3_THS_ACQ1 hw 0x3f) 0,
                Regmap_write (SUN8I_H3_THS_STAT hw) (SUN8I_H3_THS_INTS_TDATA_IRQ_0 hw) 0,
                Regmap_write (SUN8I_H3_THS_FILTER hw)
                  (SUN4I_GPADC_CTRL3_FILTER_EN hw OR SUN4I_GPADC_CTRL3_FILTER_TYPE hw 0x2) 0,
                Regmap_write (SUN8I_H3_THS_INTC hw)
                  (SUN8I_H3_THS_INTC_TDATA_IRQ_EN0 hw OR SUN8I_H3_THS_TEMP_PERIOD hw 0x55) 0,
                Regmap_read (SUN8I_H3_THS_CTRL2 hw) 0,
                Regmap_write (SUN8I_H3_THS_CTRL2 hw)
                  (SUN8I_H3_THS_TEMP_SENSE_EN0 hw OR h3_pre_ctrl2 hw) 0]\<rparr>,
            0)"
  using assms
  by (simp add: sun8i_h3_ths_resume_def sun8i_h3_calibrate_def regmap_write_ok regmap_read_ok
        h3_pre_ctrl2_def)

lemma sint_offset_scale:
  fixes r off sc :: "32 word"
  assumes "- (2 ^ 31) \<le> sint r + sint off" "sint r + sint off < 2 ^ 31"
      and "- (2 ^ 31) \<le> (sint r + sint off) * sint sc" "(sint r + sint off) * sint sc < 2 ^ 31"
  shows "sint ((r + off) * sc) = (sint r + sint off) * sint sc"
proof -
  have a: "sint (r + off) = sint r + sint off"
    using assms(1,2) by (simp add: sint_word_ariths signed_take_bit_int_eq_self)
  have "sint ((r + off) * sc) = signed_take_bit 31 (sint (r + off) * sint sc)"
    by (simp add: sint_word_ariths)
  also have "\<dots> = (sint r + sint off) * sint sc"
    using assms(3,4) by (simp add: a signed_take_bit_int_eq_self)
  finally show ?thesis .
qed

lemma gpadc_read_data:
  assumes "sun4i_gpadc_read hw nirq info ch val irqt = Some (s', ret, val')"
  shows "data s' = data info"
proof -
  obtain s3 r where prep:
    "sun4i_prepare_for_irq hw ((mutex_lock info)\<lparr>irq_data_type := irqt\<rparr>) ch irqt = Some (s3, r)"
    using assms by (auto simp: sun4i_gpadc_read_def Let_def split: option.splits)
  note fr = prepare_frame [OF prep]
  obtain s5 t where w: "wait_for_completion_timeout hw nirq (enable_irq s3) 1000 = (s5, t)"
    by (cases "wait_for_completion_timeout hw nirq (enable_irq s3) 1000")
  note wf = wait_frame [OF w]
  show ?thesis
    using assms prep w fr wf
    by (auto simp: sun4i_gpadc_read_def sun4i_gpadc_read_err_def Let_def prim_defs
             split: if_splits)
qed

lemma temp_read_data:
  assumes "sun4i_gpadc_temp_read hw nirq info val sensor = Some (s', ret, val')"
  shows "data s' = data info"
  using assms gpadc_read_data [of hw nirq info 0 val "SUN4I_GPADC_IRQ_TEMP_DATA hw" s' ret val']
  by (auto simp: sun4i_gpadc_temp_read_def prim_defs Let_def split: if_splits)

lemmas probe_defs = probe_dt_reset_def probe_dt_bus_clk_def probe_dt_mod_clk_def
  probe_dt_disable_bus_clk_def probe_dt_assert_reset_def probe_dt_irq_def

lemma probe_dt_reset_calibration:
  "calibration_data (fst (probe_dt_reset pdev s)) = calibration_data s"
  by (simp add: probe_defs log_def Let_def)

lemma probe_dt_irq_calibration:
  "calibration_data (fst (probe_dt_irq pdev s)) = calibration_data s"
  "data (fst (probe_dt_irq pdev s)) = data s"
  by (simp_all add: probe_defs log_def disable_irq_def Let_def)

lemma probe_dt_reset_ret:
  "data s = data s' \<Longrightarrow> snd (probe_dt_reset pdev s) = snd (probe_dt_reset pdev s')"
  by (simp add: probe_defs log_def Let_def)

lemma probe_dt_irq_ret:
  "data s = data s' \<Longrightarrow> snd (probe_dt_irq pdev s) = snd (probe_dt_irq pdev s')"
  by (simp add: probe_defs log_def disable_irq_def Let_def)

lemma probe_dt_after_nvmem:
  assumes "of_match_data pdev = Some d" and "\<not> IS_ERR (ioremap_resource pdev)"
      and "probe_dt_nvmem hw pdev (info\<lparr>data := d\<rparr>) = (s1, 0)"
  shows "calibration_data (fst (sun4i_gpadc_probe_dt hw pdev info)) = calibration_data s1"
    and "snd (sun4i_gpadc_probe_dt hw pdev info) =
           (if IS_ERR (regmap_init pdev) then PTR_ERR (regmap_init pdev)
            else if snd (probe_dt_irq pdev s1) \<noteq> 0 then snd (probe_dt_irq pdev s1)
            else snd (probe_dt_reset pdev (fst (probe_dt_irq pdev s1))))"
  using assms
  by (simp_all add: sun4i_gpadc_probe_dt_def Let_def split_def log_def
        probe_dt_reset_calibration probe_dt_irq_calibration)

lemma gpadc_read_failed_interrupt:
  assumes prep: "sun4i_prepare_for_irq hw ((mutex_lock info)\<lparr>irq_data_type := irqt\<rparr>) ch irqt
                   = Some (sp, 0)"
      and thr: "ths_irq_thread (data info) = Some Sun4i_gpadc_data_irq_handler"
      and nf: "next_fault sp \<noteq> 0"
  shows "\<exists>s'. sun4i_gpadc_read hw (Suc 0) info ch val irqt = Some (s', - ETIMEDOUT hw, val)"
proof -
  note fr = prepare_frame [OF prep]
  have d: "data sp = data info" using fr(3) by (simp add: prim_defs)
  have "snd (wait_for_completion_timeout hw (Suc 0) (enable_irq sp) 1000) = 0"
    using fr(6) thr nf d
    by (simp add: wait_for_completion_timeout_def call_ths_irq_thread_def
          sun4i_gpadc_data_irq_handler_def prim_defs Let_def)
  then show ?thesis
    using prep
    by (simp add: sun4i_gpadc_read_def sun4i_gpadc_read_err_def Let_def split_def)
qed

subsection \<open>A failed preparation\<close>

text \<open>
  C10. If the preparation step fails inside a request, the request returns that error
  and leaves \<^verbatim>\<open>*val\<close> alone. Between taking the lock and the exit code it neither arms
  the interrupt nor waits on the completion; the exit code releases the power claim,
  disarms the interrupt and releases the lock, in this order. The disarm has no matching
  arm: the disable depth of the interrupt is one higher than before the request, while the
  power claim is back at its value and the lock is free.
\<close>

theorem gpadc_read_prepare_failure:
  assumes prep: "sun4i_prepare_for_irq hw ((mutex_lock info)\<lparr>irq_data_type := irqt\<rparr>) ch irqt
                   = Some (s3, ret)"
      and fail: "ret \<noteq> 0"
  shows "\<exists>s' evs. sun4i_gpadc_read hw nirq info ch val irqt = Some (s', ret, val) \<and>
           trace s' = trace info @ Mutex_lock # evs @
                        [Pm_runtime_put_autosuspend, Disable_irq, Mutex_unlock] \<and>
           (\<forall>e \<in> set evs. e \<noteq> Enable_irq \<and> e \<noteq> Disable_irq \<and>
                            (\<forall>ms. e \<noteq> Wait_for_completion_timeout ms)) \<and>
           irq_depth s' = Suc (irq_depth info) \<and>
           pm_usage s' = pm_usage info \<and> \<not> mutex s'"
proof -
  obtain evs where tr: "trace s3 = trace ((mutex_lock info)\<lparr>irq_data_type := irqt\<rparr>) @ evs"
    and quiet: "\<forall>e \<in> set evs. e \<noteq> Enable_irq \<and> e \<noteq> Disable_irq \<and>
                 (\<forall>ms. e \<noteq> Wait_for_completion_timeout ms)"
    using prepare_quiet [OF prep] by blast
  note fr = prepare_frame [OF prep]
  show ?thesis
    using prep fail tr quiet fr
    by (simp add: sun4i_gpadc_read_def sun4i_gpadc_read_err_def Let_def prim_defs)
qed

theorem gpadc_read_prepare_failure_witness:
  "map_option (\<lambda>(s', ret, val). (ret, val, trace s', irq_depth s', pm_usage s', mutex s'))
     (sun4i_gpadc_read example_header 1
        ((bound_device (sun4i_gpadc_data example_header) 1)\<lparr>faults := [- 5]\<rparr>) 0 77 0)
   = Some (- 5, 77,
           [Mutex_lock, Pm_runtime_get_sync, Reinit_completion, Regmap_write 0x10 0x110 (- 5),
            Pm_runtime_put_autosuspend, Disable_irq, Mutex_unlock],
           2, 0, False)"
proof -
  let ?info = "(bound_device (sun4i_gpadc_data example_header) 1)\<lparr>faults := [- 5]\<rparr>"
  define s3 where
    "s3 = fst (the (sun4i_prepare_for_irq example_header
                      ((mutex_lock ?info)\<lparr>irq_data_type := 0\<rparr>) 0 0))"
  have prep: "sun4i_prepare_for_irq example_header ((mutex_lock ?info)\<lparr>irq_data_type := 0\<rparr>) 0 0
                = Some (s3, - 5)"
    unfolding s3_def by (simp add: eval_defs sun4i_gpadc_data_def)
  have tr: "trace s3 = [Mutex_lock, Pm_runtime_get_sync, Reinit_completion,
                        Regmap_write 0x10 0x110 (- 5)]"
    unfolding s3_def by (simp add: eval_defs sun4i_gpadc_data_def)
  from gpadc_read_prepare_failure [OF prep, of 1 77]
  obtain s' evs where
    r: "sun4i_gpadc_read example_header 1 ?info 0 77 0 = Some (s', - 5, 77)"
    and t: "trace s' = trace ?info @ Mutex_lock # evs @
              [Pm_runtime_put_autosuspend, Disable_irq, Mutex_unlock]"
    and d: "irq_depth s' = Suc (irq_depth ?info)"
    and p: "pm_usage s' = pm_usage ?info" and m: "\<not> mutex s'"
    by auto
  have "trace s' = trace s3 @ [Pm_runtime_put_autosuspend, Disable_irq, Mutex_unlock]"
    using r prep by (auto simp: sun4i_gpadc_read_def sun4i_gpadc_read_err_def prim_defs Let_def)
  with tr have "trace s' = [Mutex_lock, Pm_runtime_get_sync, Reinit_completion,
                  Regmap_write 0x10 0x110 (- 5),
                  Pm_runtime_put_autosuspend, Disable_irq, Mutex_unlock]" by simp
  with r d p m show ?thesis by (simp add: bound_device_def)
qed

subsection \<open>The interrupt handler and a failed register read\<close>

text \<open>
  C1 (as amended). The handler always returns \<^verbatim>\<open>IRQ_HANDLED\<close>. When the read of the
  data register fails, it posts no signal and stores nothing: the completion count and
  both value slots are as before, and the trace gains the failed read only. When the read
  succeeds, it stores the register in the slot of the pending mode and posts exactly one
  signal. So a request whose preparation succeeded and whose one interrupt within the
  deadline meets a failing read ends in the timeout, with \<^verbatim>\<open>*val\<close> as it was.
\<close>

theorem data_irq_handler_completion:
  "snd (sun4i_gpadc_data_irq_handler hw info) = IRQ_HANDLED \<and>
   (next_fault info \<noteq> 0 \<longrightarrow>
      completion (fst (sun4i_gpadc_data_irq_handler hw info)) = completion info \<and>
      adc_data (fst (sun4i_gpadc_data_irq_handler hw info)) = adc_data info \<and>
      temp_data (fst (sun4i_gpadc_data_irq_handler hw info)) = temp_data info \<and>
      trace (fst (sun4i_gpadc_data_irq_handler hw info)) =
        trace info @
        [Regmap_read (if irq_data_type info = SUN4I_GPADC_IRQ_FIFO_DATA hw
                      then SUN4I_GPADC_DATA hw else SUN4I_GPADC_TEMP_DATA hw)
           (next_fault info)]) \<and>
   (next_fault info = 0 \<longrightarrow>
      completion (fst (sun4i_gpadc_data_irq_handler hw info)) = Suc (completion info) \<and>
      (if irq_data_type info = SUN4I_GPADC_IRQ_FIFO_DATA hw
       then adc_data (fst (sun4i_gpadc_data_irq_handler hw info)) =
              regmap info (SUN4I_GPADC_DATA hw)
       else temp_data (fst (sun4i_gpadc_data_irq_handler hw info)) =
              regmap info (SUN4I_GPADC_TEMP_DATA hw)) \<and>
      trace (fst (sun4i_gpadc_data_irq_handler hw info)) =
        trace info @
        [Regmap_read (if irq_data_type info = SUN4I_GPADC_IRQ_FIFO_DATA hw
                      then SUN4I_GPADC_DATA hw else SUN4I_GPADC_TEMP_DATA hw) 0,
         Complete]) \<and>
   (sun4i_prepare_for_irq hw ((mutex_lock req)\<lparr>irq_data_type := irqt\<rparr>) ch irqt = Some (sp, 0) \<and>
    ths_irq_thread (data req) = Some Sun4i_gpadc_data_irq_handler \<and> next_fault sp \<noteq> 0 \<longrightarrow>
      (\<exists>s'. sun4i_gpadc_read hw (Suc 0) req ch val irqt = Some (s', - ETIMEDOUT hw, val)))"
  using gpadc_read_failed_interrupt [where hw = hw and info = req and irqt = irqt and ch = ch
          and sp = sp and val = val]
  by (simp add: sun4i_gpadc_data_irq_handler_def prim_defs Let_def)

theorem data_irq_handler_completion_witness:
  "completion (fst (sun4i_gpadc_data_irq_handler example_header
      ((bound_device (sun4i_gpadc_data example_header) 0)\<lparr>faults := [- 5]\<rparr>))) = 0 \<and>
   completion (fst (sun4i_gpadc_data_irq_handler example_header
      (bound_device (sun4i_gpadc_data example_header) 0))) = 1 \<and>
   (\<exists>s'. sun4i_gpadc_read example_header (Suc 0)
           ((bound_device (sun4i_gpadc_data example_header) 1)\<lparr>faults := [0, 0, 0, 0, - 5]\<rparr>)
           0 77 1 = Some (s', - 110, 77))"
proof -
  let ?bad = "(bound_device (sun4i_gpadc_data example_header) 0)\<lparr>faults := [- 5]\<rparr>"
  let ?good = "bound_device (sun4i_gpadc_data example_header) 0"
  let ?req = "(bound_device (sun4i_gpadc_data example_header) 1)\<lparr>faults := [0, 0, 0, 0, - 5]\<rparr>"
  define s3 where
    "s3 = fst (the (sun4i_prepare_for_irq example_header
                      ((mutex_lock ?req)\<lparr>irq_data_type := 1\<rparr>) 0 1))"
  have prep: "sun4i_prepare_for_irq example_header ((mutex_lock ?req)\<lparr>irq_data_type := 1\<rparr>) 0 1
                = Some (s3, 0)"
    unfolding s3_def by (simp add: eval_defs sun4i_gpadc_data_def)
  have nf: "next_fault s3 \<noteq> 0"
    unfolding s3_def by (simp add: eval_defs sun4i_gpadc_data_def)
  have thr: "ths_irq_thread (data ?req) = Some Sun4i_gpadc_data_irq_handler"
    by (simp add: bound_device_def sun4i_gpadc_data_def)
  have e: "ETIMEDOUT example_header = 110" by (simp add: example_header_def)
  note bad = data_irq_handler_completion [where hw = example_header and info = ?bad
      and req = ?req and irqt = 1 and ch = 0 and sp = s3 and val = 77]
  note good = data_irq_handler_completion [where hw = example_header and info = ?good
      and req = ?req and irqt = 1 and ch = 0 and sp = s3 and val = 77]
  have "completion (fst (sun4i_gpadc_data_irq_handler example_header ?bad)) = 0"
    using bad by (simp add: next_fault_def bound_device_def)
  moreover have "completion (fst (sun4i_gpadc_data_irq_handler example_header ?good)) = 1"
    using good by (simp add: next_fault_def bound_device_def)
  moreover have "\<exists>s'. sun4i_gpadc_read example_header (Suc 0) ?req 0 77 1 = Some (s', - 110, 77)"
    using bad prep nf thr e by simp
  ultimately show ?thesis by blast
qed

text \<open>
  C1 as stated fails: with a read that returns -5 (EIO) the handler posts nothing, and a
  voltage request whose only interrupt hits that failure ends in the timeout (-110).
\<close>

theorem data_irq_handler_failed_read_counterexample:
  "Complete \<notin> set (trace (fst (sun4i_gpadc_data_irq_handler example_header
      ((bound_device (sun4i_gpadc_data example_header) 0)\<lparr>faults := [- 5]\<rparr>)))) \<and>
   completion (fst (sun4i_gpadc_data_irq_handler example_header
      ((bound_device (sun4i_gpadc_data example_header) 0)\<lparr>faults := [- 5]\<rparr>))) = 0 \<and>
   map_option (\<lambda>(s', ret, val). (ret, val, trace s'))
     (sun4i_gpadc_read example_header 1
        ((bound_device (sun4i_gpadc_data example_header) 1)\<lparr>faults := [0, 0, 0, 0, - 5]\<rparr>)
        0 77 0)
   = Some (- 110, 77,
        [Mutex_lock, Pm_runtime_get_sync, Reinit_completion,
         Regmap_write 0x10 0x110 0, Regmap_read 0x04 0, Regmap_write 0x04 0x18 0,
         Regmap_write 0x10 0x40000 0, Mdelay 100, Enable_irq,
         Wait_for_completion_timeout 1000, Regmap_read 0x24 (- 5),
         Pm_runtime_put_autosuspend, Disable_irq, Mutex_unlock])"
  by (simp add: eval_defs sun4i_gpadc_data_def)

subsection \<open>The timeout path\<close>

text \<open>
  C2. When the preparation succeeded and the wait saw no signal within the 1000 ms, the
  request returns \<^verbatim>\<open>-ETIMEDOUT\<close> and leaves \<^verbatim>\<open>*val\<close> as it was; after the wait it
  releases the power claim, disarms the interrupt and only then releases the lock. The
  usage count of the power claim is back at its value before the request, as it is on
  every path on which the request returns, the successful one included.
\<close>

theorem gpadc_read_timeout:
  assumes prep: "sun4i_prepare_for_irq hw ((mutex_lock info)\<lparr>irq_data_type := irqt\<rparr>) ch irqt
                   = Some (s3, 0)"
      and wait: "wait_for_completion_timeout hw nirq (enable_irq s3) 1000 = (s5, 0)"
  shows "\<exists>s'. sun4i_gpadc_read hw nirq info ch val irqt = Some (s', - ETIMEDOUT hw, val) \<and>
           trace s' = trace s5 @ [Pm_runtime_put_autosuspend, Disable_irq, Mutex_unlock] \<and>
           irq_depth s' = Suc (irq_depth info - 1) \<and>
           pm_usage s' = pm_usage info \<and> \<not> mutex s' \<and>
           (\<forall>n v s'' r v'. sun4i_gpadc_read hw n info ch v irqt = Some (s'', r, v') \<longrightarrow>
                            pm_usage s'' = pm_usage info)"
  using prep wait prepare_frame [OF prep] wait_frame [OF wait] gpadc_read_balanced [of hw _ info ch _ irqt]
  by (auto simp: sun4i_gpadc_read_def sun4i_gpadc_read_err_def Let_def prim_defs)

theorem gpadc_read_timeout_witness:
  "map_option (\<lambda>(s', ret, val). (ret, val, trace s', irq_depth s', pm_usage s', mutex s'))
     (sun4i_gpadc_read example_header 0
        (bound_device (sun4i_gpadc_data example_header) 1) 0 77 1)
   = Some (- 110, 77,
        [Mutex_lock, Pm_runtime_get_sync, Reinit_completion,
         Regmap_write 0x10 0x110 0, Regmap_read 0x04 0, Regmap_write 0x04 0x10 0,
         Regmap_write 0x10 0x40000 0, Mdelay 100, Enable_irq,
         Wait_for_completion_timeout 1000,
         Pm_runtime_put_autosuspend, Disable_irq, Mutex_unlock],
        1, 0, False)"
proof -
  let ?info = "bound_device (sun4i_gpadc_data example_header) 1"
  define s3 where
    "s3 = fst (the (sun4i_prepare_for_irq example_header
                      ((mutex_lock ?info)\<lparr>irq_data_type := 1\<rparr>) 0 1))"
  define s5 where
    "s5 = fst (wait_for_completion_timeout example_header 0 (enable_irq s3) 1000)"
  have prep: "sun4i_prepare_for_irq example_header ((mutex_lock ?info)\<lparr>irq_data_type := 1\<rparr>) 0 1
                = Some (s3, 0)"
    unfolding s3_def by (simp add: eval_defs sun4i_gpadc_data_def)
  have wait: "wait_for_completion_timeout example_header 0 (enable_irq s3) 1000 = (s5, 0)"
    unfolding s5_def s3_def by (simp add: eval_defs sun4i_gpadc_data_def)
  have tr: "trace s5 = [Mutex_lock, Pm_runtime_get_sync, Reinit_completion,
         Regmap_write 0x10 0x110 0, Regmap_read 0x04 0, Regmap_write 0x04 0x10 0,
         Regmap_write 0x10 0x40000 0, Mdelay 100, Enable_irq,
         Wait_for_completion_timeout 1000]"
    unfolding s5_def s3_def by (simp add: eval_defs sun4i_gpadc_data_def)
  from gpadc_read_timeout [OF prep wait, of 77] tr
  show ?thesis
    by (auto simp: bound_device_def example_header_def)
qed

subsection \<open>No check of the channel\<close>

text \<open>
  C4 (as amended). A request checks neither the channel nor the mode. On a profile with
  a channel-select function (and for every temperature request) it returns, and whatever
  the channel, the first things it does are to take the lock, claim power, reset the
  completion and write the FIFO control register. When no register access fails, the
  return code is 0 or \<^verbatim>\<open>-ETIMEDOUT\<close>, and a voltage request has written CTRL1 with the
  channel passed through the profile's channel-select function.
\<close>

theorem gpadc_read_no_channel_check:
  assumes sel: "irqt = SUN4I_GPADC_IRQ_FIFO_DATA hw \<longrightarrow> adc_chan_select (data info) \<noteq> None"
  shows "\<exists>s' ret val' evs.
           sun4i_gpadc_read hw nirq info ch val irqt = Some (s', ret, val') \<and>
           trace s' = trace info @
             [Mutex_lock, Pm_runtime_get_sync, Reinit_completion,
              Regmap_write (SUN4I_GPADC_INT_FIFOC hw)
                (SUN4I_GPADC_INT_FIFOC_TP_FIFO_TRIG_LEVEL hw 1 OR
                 SUN4I_GPADC_INT_FIFOC_TP_FIFO_FLUSH hw) (next_fault info)] @ evs \<and>
           (faults info = [] \<longrightarrow>
              (ret = 0 \<or> ret = - ETIMEDOUT hw) \<and>
              (\<forall>f. irqt = SUN4I_GPADC_IRQ_FIFO_DATA hw \<longrightarrow>
                   adc_chan_select (data info) = Some f \<longrightarrow>
                   Regmap_write (SUN4I_GPADC_CTRL1 hw)
                     (tp_mode_en (data info) OR tp_adc_select (data info) OR
                      call_chan_select hw f ch) 0 \<in> set (trace s')))"
proof -
  let ?s2 = "(mutex_lock info)\<lparr>irq_data_type := irqt\<rparr>"
  have "irqt = SUN4I_GPADC_IRQ_FIFO_DATA hw \<longrightarrow> adc_chan_select (data ?s2) \<noteq> None"
    using sel by (simp add: prim_defs)
  from prepare_total [OF this] obtain s3 r where
    prep: "sun4i_prepare_for_irq hw ?s2 ch irqt = Some (s3, r)" by blast
  from prepare_trace [OF prep] obtain evs where
    tr: "trace s3 = trace ?s2 @
            [Pm_runtime_get_sync, Reinit_completion,
             Regmap_write (SUN4I_GPADC_INT_FIFOC hw)
               (SUN4I_GPADC_INT_FIFOC_TP_FIFO_TRIG_LEVEL hw 1 OR
                SUN4I_GPADC_INT_FIFOC_TP_FIFO_FLUSH hw) (next_fault ?s2)] @ evs" by blast
  obtain s5 t where w: "wait_for_completion_timeout hw nirq (enable_irq s3) 1000 = (s5, t)"
    by (cases "wait_for_completion_timeout hw nirq (enable_irq s3) 1000")
  from wait_trace [OF w] obtain evs' where
    wtr: "trace s5 = trace (enable_irq s3) @ Wait_for_completion_timeout 1000 # evs'" by blast
  have nf: "next_fault ?s2 = next_fault info" by (simp add: prim_defs)
  have clean: "faults info = [] \<longrightarrow> r = 0 \<and>
           (\<forall>f. irqt = SUN4I_GPADC_IRQ_FIFO_DATA hw \<longrightarrow> adc_chan_select (data info) = Some f \<longrightarrow>
              Regmap_write (SUN4I_GPADC_CTRL1 hw)
                (tp_mode_en (data info) OR tp_adc_select (data info) OR
                 call_chan_select hw f ch) 0 \<in> set (trace s3))"
    using prepare_no_fault [OF prep] by (simp add: prim_defs)
  show ?thesis
  proof (cases "r = 0")
    case False
    then have "sun4i_gpadc_read hw nirq info ch val irqt =
                 Some (sun4i_gpadc_read_err s3 r val)"
      using prep by (simp add: sun4i_gpadc_read_def Let_def)
    moreover have "trace (fst (sun4i_gpadc_read_err s3 r val)) = trace info @
             [Mutex_lock, Pm_runtime_get_sync, Reinit_completion,
              Regmap_write (SUN4I_GPADC_INT_FIFOC hw)
                (SUN4I_GPADC_INT_FIFOC_TP_FIFO_TRIG_LEVEL hw 1 OR
                 SUN4I_GPADC_INT_FIFOC_TP_FIFO_FLUSH hw) (next_fault info)] @
             (evs @ [Pm_runtime_put_autosuspend, Disable_irq, Mutex_unlock])"
      using tr nf by (simp add: sun4i_gpadc_read_err_def prim_defs)
    ultimately show ?thesis
      using False clean by (auto simp: sun4i_gpadc_read_err_def)
  next
    case True
    show ?thesis
    proof (cases "t = 0")
      case True
      then have "sun4i_gpadc_read hw nirq info ch val irqt =
                   Some (sun4i_gpadc_read_err s5 (- ETIMEDOUT hw) val)"
        using prep w \<open>r = 0\<close> by (simp add: sun4i_gpadc_read_def Let_def)
      moreover have "trace (fst (sun4i_gpadc_read_err s5 (- ETIMEDOUT hw) val)) = trace info @
             [Mutex_lock, Pm_runtime_get_sync, Reinit_completion,
              Regmap_write (SUN4I_GPADC_INT_FIFOC hw)
                (SUN4I_GPADC_INT_FIFOC_TP_FIFO_TRIG_LEVEL hw 1 OR
                 SUN4I_GPADC_INT_FIFOC_TP_FIFO_FLUSH hw) (next_fault info)] @
             (evs @ Enable_irq # Wait_for_completion_timeout 1000 # evs' @
                [Pm_runtime_put_autosuspend, Disable_irq, Mutex_unlock])"
        using tr wtr nf by (simp add: sun4i_gpadc_read_err_def prim_defs)
      moreover have "set (trace s3) \<subseteq> set (trace (fst (sun4i_gpadc_read_err s5 (- ETIMEDOUT hw) val)))"
        using wtr by (auto simp: sun4i_gpadc_read_err_def prim_defs)
      ultimately show ?thesis
        using clean by (auto simp: sun4i_gpadc_read_err_def)
    next
      case False
      let ?v = "if irqt = SUN4I_GPADC_IRQ_FIFO_DATA hw then adc_data s5 else temp_data s5"
      let ?s6 = "pm_runtime_mark_last_busy s5"
      from False have "sun4i_gpadc_read hw nirq info ch val irqt =
                   Some (sun4i_gpadc_read_err ?s6 0 ?v)"
        using prep w \<open>r = 0\<close> by (simp add: sun4i_gpadc_read_def Let_def)
      moreover have "trace (fst (sun4i_gpadc_read_err ?s6 0 ?v)) = trace info @
             [Mutex_lock, Pm_runtime_get_sync, Reinit_completion,
              Regmap_write (SUN4I_GPADC_INT_FIFOC hw)
                (SUN4I_GPADC_INT_FIFOC_TP_FIFO_TRIG_LEVEL hw 1 OR
                 SUN4I_GPADC_INT_FIFOC_TP_FIFO_FLUSH hw) (next_fault info)] @
             (evs @ Enable_irq # Wait_for_completion_timeout 1000 # evs' @
                [Pm_runtime_mark_last_busy, Pm_runtime_put_autosuspend, Disable_irq,
                 Mutex_unlock])"
        using tr wtr nf by (simp add: sun4i_gpadc_read_err_def prim_defs)
      moreover have "set (trace s3) \<subseteq> set (trace (fst (sun4i_gpadc_read_err ?s6 0 ?v)))"
        using wtr by (auto simp: sun4i_gpadc_read_err_def prim_defs)
      ultimately show ?thesis
        using clean by (auto simp: sun4i_gpadc_read_err_def)
    qed
  qed
qed

theorem gpadc_read_no_channel_check_witness:
  "\<exists>s' ret val'.
     sun4i_gpadc_read example_header 0 (bound_device (sun4i_gpadc_data example_header) 1) 9 77 0
       = Some (s', ret, val') \<and>
     (ret = 0 \<or> ret = - 110) \<and> Regmap_write 0x04 0x19 0 \<in> set (trace s')"
proof -
  let ?info = "bound_device (sun4i_gpadc_data example_header) 1"
  have sel: "0 = SUN4I_GPADC_IRQ_FIFO_DATA example_header \<longrightarrow>
               adc_chan_select (data ?info) \<noteq> None"
    by (simp add: bound_device_def sun4i_gpadc_data_def)
  have nf: "faults ?info = []" by (simp add: bound_device_def)
  have fifo: "0 = SUN4I_GPADC_IRQ_FIFO_DATA example_header" by (simp add: example_header_def)
  have f: "adc_chan_select (data ?info) = Some Sun4i_gpadc_chan_select"
    by (simp add: bound_device_def sun4i_gpadc_data_def)
  from gpadc_read_no_channel_check [OF sel, of 0 9 77] obtain s' ret val' where
    r: "sun4i_gpadc_read example_header 0 ?info 9 77 0 = Some (s', ret, val')"
    and c: "faults ?info = [] \<longrightarrow>
              (ret = 0 \<or> ret = - ETIMEDOUT example_header) \<and>
              (\<forall>f. 0 = SUN4I_GPADC_IRQ_FIFO_DATA example_header \<longrightarrow>
                   adc_chan_select (data ?info) = Some f \<longrightarrow>
                   Regmap_write (SUN4I_GPADC_CTRL1 example_header)
                     (tp_mode_en (data ?info) OR tp_adc_select (data ?info) OR
                      call_chan_select example_header f 9) 0 \<in> set (trace s'))"
    by blast
  from c nf fifo f have "ret = 0 \<or> ret = - ETIMEDOUT example_header"
    and "Regmap_write (SUN4I_GPADC_CTRL1 example_header)
           (tp_mode_en (data ?info) OR tp_adc_select (data ?info) OR
            call_chan_select example_header Sun4i_gpadc_chan_select 9) 0 \<in> set (trace s')"
    by blast+
  then have "ret = 0 \<or> ret = - 110" and "Regmap_write 0x04 0x19 0 \<in> set (trace s')"
    by (simp_all add: bound_device_def sun4i_gpadc_data_def example_header_def
          sun4i_gpadc_chan_select_def)
  with r show ?thesis by blast
qed

text \<open>
  C4 as stated fails: a voltage request for channel 5 on the A10 profile is not rejected.
  It writes the registers (CTRL1 gets the channel bits 5) and returns 0 with the value of
  the data register.
\<close>

theorem gpadc_read_channel_5_counterexample:
  "map_option (\<lambda>(s', ret, val). (ret, val, trace s'))
     (sun4i_gpadc_read example_header 1
        ((bound_device (sun4i_gpadc_data example_header) 1)
           \<lparr>regmap := (\<lambda>_. 0)(0x24 := 0x123)\<rparr>) 5 77 0)
   = Some (0, 0x123,
        [Mutex_lock, Pm_runtime_get_sync, Reinit_completion,
         Regmap_write 0x10 0x110 0, Regmap_read 0x04 0, Regmap_write 0x04 0x1d 0, Mdelay 10,
         Regmap_write 0x10 0x40000 0, Mdelay 100, Enable_irq,
         Wait_for_completion_timeout 1000, Regmap_read 0x24 0, Complete,
         Pm_runtime_mark_last_busy, Pm_runtime_put_autosuspend, Disable_irq, Mutex_unlock])"
  by (simp add: eval_defs sun4i_gpadc_data_def)

subsection \<open>Settling delays\<close>

text \<open>
  C3. The code evaluated on the A10 profile. A voltage request on channel 0 leaves CTRL1
  at 0x18 (ADC mode). A temperature request from that state, a switch of mode, returns 0
  and has made no delay at all; a temperature request from the state a temperature
  request leaves (CTRL1 at 0x10), a repeat in the same mode, has made the 100 ms delay.
\<close>

theorem mode_switch_settle_evaluated:
  "map_option (\<lambda>(s', ret, val). (ret, regmap s' 0x04))
     (sun4i_gpadc_read example_header 1
        (bound_device (sun4i_gpadc_data example_header) 1) 0 0 0) = Some (0, 0x18) \<and>
   map_option (\<lambda>(s', ret, val). (ret, regmap s' 0x04, mdelays (trace s')))
     (sun4i_gpadc_read example_header 1
        ((bound_device (sun4i_gpadc_data example_header) 1)
           \<lparr>regmap := (\<lambda>_. 0)(0x04 := 0x18)\<rparr>) 0 0 1) = Some (0, 0x10, []) \<and>
   map_option (\<lambda>(s', ret, val). (ret, regmap s' 0x04, mdelays (trace s')))
     (sun4i_gpadc_read example_header 1
        ((bound_device (sun4i_gpadc_data example_header) 1)
           \<lparr>regmap := (\<lambda>_. 0)(0x04 := 0x10)\<rparr>) 0 0 1) = Some (0, 0x10, [100])"
  by (simp add: eval_defs sun4i_gpadc_data_def mdelays_def)

subsection \<open>Resume\<close>

text \<open>
  C5. For every profile, with register accesses that succeed, a second
  \<^verbatim>\<open>sun4i_gpadc_runtime_resume\<close> right after the first leaves the register file exactly
  as the first left it.
\<close>

theorem runtime_resume_idempotent:
  assumes "faults info = []"
  shows "regmap (fst (sun4i_gpadc_runtime_resume hw v2
                        (fst (sun4i_gpadc_runtime_resume hw v1 info)))) =
         regmap (fst (sun4i_gpadc_runtime_resume hw v1 info))"
proof (cases "ths_resume (data info)")
  case Sun4i_ths_resume
  have once: "sun4i_gpadc_runtime_resume hw v1 info = sun4i_ths_resume hw info"
    using Sun4i_ths_resume by (simp add: sun4i_gpadc_runtime_resume_def)
  let ?s1 = "fst (sun4i_ths_resume hw info)"
  have f1: "faults ?s1 = []" and d1: "data ?s1 = data info"
    using assms by (simp_all add: sun4i_ths_resume_ok)
  have twice: "sun4i_gpadc_runtime_resume hw v2 ?s1 = sun4i_ths_resume hw ?s1"
    using Sun4i_ths_resume d1 by (simp add: sun4i_gpadc_runtime_resume_def)
  show ?thesis
    unfolding once twice
    by (simp add: sun4i_ths_resume_ok [OF f1] d1) (simp add: sun4i_ths_resume_ok [OF assms])
next
  case Sun8i_h3_ths_resume
  have once: "sun4i_gpadc_runtime_resume hw v1 info = sun8i_h3_ths_resume hw v1 info"
    using Sun8i_h3_ths_resume by (simp add: sun4i_gpadc_runtime_resume_def)
  let ?s1 = "fst (sun8i_h3_ths_resume hw v1 info)"
  have f1: "faults ?s1 = []" and d1: "data ?s1 = data info"
    using assms by (simp_all add: sun8i_h3_ths_resume_ok)
  have twice: "sun4i_gpadc_runtime_resume hw v2 ?s1 = sun8i_h3_ths_resume hw v2 ?s1"
    using Sun8i_h3_ths_resume d1 by (simp add: sun4i_gpadc_runtime_resume_def)
  show ?thesis
    unfolding once twice
    by (simp add: sun8i_h3_ths_resume_ok [OF f1]) (simp add: sun8i_h3_ths_resume_ok [OF assms])
qed

theorem runtime_resume_idempotent_witness:
  "regmap (fst (sun4i_gpadc_runtime_resume example_header 7
             (fst (sun4i_gpadc_runtime_resume example_header 9
                (bound_device (sun8i_h3_ths_data example_header) 0))))) 0x40 = 0x3f0001 \<and>
   regmap (fst (sun4i_gpadc_runtime_resume example_header 9
                (bound_device (sun8i_h3_ths_data example_header) 0))) 0x40 = 0x3f0001"
proof -
  let ?info = "bound_device (sun8i_h3_ths_data example_header) 0"
  have f: "faults ?info = []" by (simp add: bound_device_def)
  have one: "regmap (fst (sun4i_gpadc_runtime_resume example_header 9 ?info)) 0x40 = 0x3f0001"
    by (simp add: sun4i_gpadc_runtime_resume_def sun8i_h3_ths_resume_ok [OF f])
       (simp add: bound_device_def sun8i_h3_ths_data_def example_header_def h3_pre_ctrl2_def
          sun8i_h3_ths_resume_ok)
  show ?thesis
    using runtime_resume_idempotent [OF f, of example_header 7 9] one by simp
qed

text \<open>
  C6 (as amended). On the H3, with register accesses that succeed and CTRL2 at an address
  of its own, the calibration step changes nothing, and resume ends with a read of CTRL2
  followed by a write of that value with the temperature-sense bit set. CTRL2 was written
  with the acquisition field earlier in the same resume, so the final content is the
  sense bit and that field, whatever CTRL2 held before the call.
\<close>

theorem h3_resume_control_register:
  assumes "faults info = []"
      and "SUN8I_H3_THS_STAT hw \<noteq> SUN8I_H3_THS_CTRL2 hw"
      and "SUN8I_H3_THS_FILTER hw \<noteq> SUN8I_H3_THS_CTRL2 hw"
      and "SUN8I_H3_THS_INTC hw \<noteq> SUN8I_H3_THS_CTRL2 hw"
  shows "sun8i_h3_calibrate info = (info, 0) \<and>
         regmap (fst (sun8i_h3_ths_resume hw v0 info)) (SUN8I_H3_THS_CTRL2 hw) =
           SUN8I_H3_THS_TEMP_SENSE_EN0 hw OR SUN8I_H3_THS_ACQ1 hw 0x3f \<and>
         trace (fst (sun8i_h3_ths_resume hw v0 info)) = trace info @
           [Regmap_write (SUN8I_H3_THS_CTRL0 hw) (SUN4I_GPADC_CTRL0_T_ACQ hw 0xff) 0,
            Regmap_write (SUN8I_H3_THS_CTRL2 hw) (SUN8I_H3_THS_ACQ1 hw 0x3f) 0,
            Regmap_write (SUN8I_H3_THS_STAT hw) (SUN8I_H3_THS_INTS_TDATA_IRQ_0 hw) 0,
            Regmap_write (SUN8I_H3_THS_FILTER hw)
              (SUN4I_GPADC_CTRL3_FILTER_EN hw OR SUN4I_GPADC_CTRL3_FILTER_TYPE hw 0x2) 0,
            Regmap_write (SUN8I_H3_THS_INTC hw)
              (SUN8I_H3_THS_INTC_TDATA_IRQ_EN0 hw OR SUN8I_H3_THS_TEMP_PERIOD hw 0x55) 0,
            Regmap_read (SUN8I_H3_THS_CTRL2 hw) 0,
            Regmap_write (SUN8I_H3_THS_CTRL2 hw)
              (SUN8I_H3_THS_TEMP_SENSE_EN0 hw OR SUN8I_H3_THS_ACQ1 hw 0x3f) 0]"
  using assms
  by (simp add: sun8i_h3_ths_resume_ok h3_pre_ctrl2_def sun8i_h3_calibrate_def)

theorem h3_resume_control_register_witness:
  "regmap (fst (sun8i_h3_ths_resume example_header 0
             ((bound_device (sun8i_h3_ths_data example_header) 0)
                \<lparr>regmap := (\<lambda>_. 0)(0x40 := 0xffff0002)\<rparr>))) 0x40 = 0x3f0001"
  using h3_resume_control_register [of
          "(bound_device (sun8i_h3_ths_data example_header) 0)
             \<lparr>regmap := (\<lambda>_. 0)(0x40 := 0xffff0002)\<rparr>" example_header 0]
  by (simp add: bound_device_def example_header_def)

text \<open>
  C6 as stated fails: bit 1 of CTRL2, set before resume, is clear after it.
\<close>

theorem h3_resume_overwrites_control_register_counterexample:
  "regmap ((bound_device (sun8i_h3_ths_data example_header) 0)
             \<lparr>regmap := (\<lambda>_. 0)(0x40 := 0x2)\<rparr>) 0x40 AND 0x2 = 0x2 \<and>
   regmap (fst (sun8i_h3_ths_resume example_header 0
             ((bound_device (sun8i_h3_ths_data example_header) 0)
                \<lparr>regmap := (\<lambda>_. 0)(0x40 := 0x2)\<rparr>))) 0x40 AND 0x2 = 0"
  by (simp add: sun8i_h3_ths_resume_ok bound_device_def)
     (simp add: example_header_def h3_pre_ctrl2_def)

subsection \<open>The voltage scale\<close>

text \<open>
  C8. For every voltage channel, the scale request of \<^verbatim>\<open>sun4i_gpadc_read_raw\<close> returns
  \<^verbatim>\<open>IIO_VAL_INT_PLUS_NANO\<close> with integer part 0 and nano part 732421875, and this
  fixed-point value is exactly 3000 / 4096.
\<close>

theorem read_raw_voltage_scale:
  "sun4i_gpadc_read_raw hw nirq info \<lparr>chan_type = IIO_VOLTAGE, channel = c\<rparr> val val2
     IIO_CHAN_INFO_SCALE = Some (info, IIO_VAL_INT_PLUS_NANO hw, 0, 732421875) \<and>
   (\<exists>v v2. sun4i_gpadc_read_raw hw nirq info \<lparr>chan_type = IIO_VOLTAGE, channel = c\<rparr> val val2
              IIO_CHAN_INFO_SCALE = Some (info, IIO_VAL_INT_PLUS_NANO hw, v, v2) \<and>
            (uint v * 10 ^ 9 + uint v2) * 4096 = 3000 * 10 ^ 9)"
  by (simp add: sun4i_gpadc_read_raw_def)

theorem read_raw_voltage_scale_witness:
  "sun4i_gpadc_read_raw example_header 0 (bound_device (sun4i_gpadc_data example_header) 1)
     \<lparr>chan_type = IIO_VOLTAGE, channel = 3\<rparr> 5 6 IIO_CHAN_INFO_SCALE
   = Some (bound_device (sun4i_gpadc_data example_header) 1, 3, 0, 732421875)"
  using read_raw_voltage_scale [of example_header 0
          "bound_device (sun4i_gpadc_data example_header) 1" 3 5 6]
  by (simp add: example_header_def)

subsection \<open>The temperature formula\<close>

text \<open>
  C7. For every profile and every sensor index, when the temperature read returns the raw
  code \<^verbatim>\<open>r\<close>, \<^verbatim>\<open>sun4i_gpadc_get_temp\<close> reports \<^verbatim>\<open>(r + temp_offset) * temp_scale\<close> with the
  constants of the bound profile, in the 32-bit arithmetic of C; where neither the sum
  nor the product leaves the range of \<^verbatim>\<open>int\<close>, this is the product of the integers.
\<close>

theorem get_temp_formula:
  assumes "sun4i_gpadc_temp_read hw nirq info val0 sensor = Some (s1, 0, r)"
  shows "sun4i_gpadc_get_temp hw nirq val0 info sensor temp =
           Some (s1, 0, (r + temp_offset (data info)) * temp_scale (data info)) \<and>
         (- (2 ^ 31) \<le> sint r + sint (temp_offset (data info)) \<and>
          sint r + sint (temp_offset (data info)) < 2 ^ 31 \<and>
          - (2 ^ 31) \<le> (sint r + sint (temp_offset (data info))) * sint (temp_scale (data info)) \<and>
          (sint r + sint (temp_offset (data info))) * sint (temp_scale (data info)) < 2 ^ 31
          \<longrightarrow> sint ((r + temp_offset (data info)) * temp_scale (data info)) =
                (sint r + sint (temp_offset (data info))) * sint (temp_scale (data info)))"
  using assms temp_read_data [OF assms] sint_offset_scale
  by (simp add: sun4i_gpadc_get_temp_def sun4i_gpadc_temp_scale_def sun4i_gpadc_temp_offset_def)

theorem get_temp_formula_witness:
  "map_option (\<lambda>(s', ret, temp). (ret, sint temp))
     (sun4i_gpadc_get_temp example_header 0 0
        ((bound_device (sun8i_a33_gpadc_data example_header) 0)
           \<lparr>regmap := (\<lambda>_. 0)(0x20 := 2000)\<rparr>) 0 0) = Some (0, 54756) \<and>
   map_option (\<lambda>(s', ret, temp). (ret, sint temp))
     (sun4i_gpadc_get_temp example_header 1 0
        ((bound_device (sun8i_h3_ths_data example_header) 0)
           \<lparr>regmap := (\<lambda>_. 0)(0x84 := 1500)\<rparr>) 1 0) = Some (0, 35211)"
proof -
  let ?a = "(bound_device (sun8i_a33_gpadc_data example_header) 0)
              \<lparr>regmap := (\<lambda>_. 0)(0x20 := 2000)\<rparr>"
  let ?h = "(bound_device (sun8i_h3_ths_data example_header) 0)
              \<lparr>regmap := (\<lambda>_. 0)(0x84 := 1500)\<rparr>"
  define sa where "sa = fst (the (sun4i_gpadc_temp_read example_header 0 ?a 0 0))"
  define sh where "sh = fst (the (sun4i_gpadc_temp_read example_header 1 ?h 0 1))"
  have ra: "sun4i_gpadc_temp_read example_header 0 ?a 0 0 = Some (sa, 0, 2000)"
    unfolding sa_def
    by (simp add: sun4i_gpadc_temp_read_def sun8i_a33_gpadc_data_def bound_device_def
          example_header_def prim_defs next_fault_def Let_def)
  have rh: "sun4i_gpadc_temp_read example_header 1 ?h 0 1 = Some (sh, 0, 1500)"
    unfolding sh_def
    by (simp add: sun4i_gpadc_temp_read_def sun8i_h3_ths_data_def bound_device_def
          example_header_def prim_defs next_fault_def Let_def)
  from get_temp_formula [OF ra, of 0] get_temp_formula [OF rh, of 0]
  show ?thesis
    by (simp add: bound_device_def sun8i_a33_gpadc_data_def sun8i_h3_ths_data_def)
qed

subsection \<open>The calibration blob\<close>

text \<open>
  C9. On a profile that supports the calibration store, with the cell present: a blob of
  8 bytes is split in order into the two calibration words (bytes 0 to 3, bytes 4 to 7); a
  blob of any other length leaves the calibration words as they were, and the probe
  returns what it returns with a blob of 8 bytes: the wrong size does not abort it.
\<close>

theorem probe_dt_calibration_blob:
  assumes m: "of_match_data pdev = Some d" and nv: "supports_nvmem d"
      and io: "\<not> IS_ERR (ioremap_resource pdev)" and cell: "nvmem_calibration pdev = Cell bs"
  shows "(bs = [ba, bb, bc, bd, be, bf, bg, bh] \<longrightarrow>
            calibration_data (fst (sun4i_gpadc_probe_dt hw pdev info)) =
              (le32 [ba, bb, bc, bd], le32 [be, bf, bg, bh])) \<and>
         (length bs \<noteq> 8 \<longrightarrow>
            calibration_data (fst (sun4i_gpadc_probe_dt hw pdev info)) = calibration_data info \<and>
            snd (sun4i_gpadc_probe_dt hw pdev info) =
              snd (sun4i_gpadc_probe_dt hw (pdev\<lparr>nvmem_calibration := Cell (replicate 8 0)\<rparr>) info))"
proof (intro conjI impI)
  assume bs: "bs = [ba, bb, bc, bd, be, bf, bg, bh]"
  have "probe_dt_nvmem hw pdev (info\<lparr>data := d\<rparr>) =
          (info\<lparr>data := d, calibration_data := (le32 [ba, bb, bc, bd], le32 [be, bf, bg, bh])\<rparr>, 0)"
    using nv cell bs by (simp add: probe_dt_nvmem_def cell_data_def)
  from probe_dt_after_nvmem(1) [OF m io this]
  show "calibration_data (fst (sun4i_gpadc_probe_dt hw pdev info)) =
          (le32 [ba, bb, bc, bd], le32 [be, bf, bg, bh])" by simp
next
  assume len: "length bs \<noteq> 8"
  let ?s1 = "log (Dev_err ''Calibration data has wrong size'') (info\<lparr>data := d\<rparr>)"
  have bad: "probe_dt_nvmem hw pdev (info\<lparr>data := d\<rparr>) = (?s1, 0)"
    using nv cell len by (simp add: probe_dt_nvmem_def)
  from probe_dt_after_nvmem(1) [OF m io bad]
  show "calibration_data (fst (sun4i_gpadc_probe_dt hw pdev info)) = calibration_data info"
    by (simp add: log_def)
  let ?pdev' = "pdev\<lparr>nvmem_calibration := Cell (replicate 8 0)\<rparr>"
  let ?s1' = "info\<lparr>data := d, calibration_data :=
                  (cell_data (replicate 8 0) 0, cell_data (replicate 8 0) 1)\<rparr>"
  have good: "probe_dt_nvmem hw ?pdev' (info\<lparr>data := d\<rparr>) = (?s1', 0)"
    using nv by (simp add: probe_dt_nvmem_def)
  have m': "of_match_data ?pdev' = Some d" and io': "\<not> IS_ERR (ioremap_resource ?pdev')"
    using m io by simp_all
  have irq_eq: "snd (probe_dt_irq ?pdev' ?s1') = snd (probe_dt_irq pdev ?s1)"
    by (simp add: probe_defs log_def disable_irq_def Let_def)
  have reset_eq: "snd (probe_dt_reset ?pdev' (fst (probe_dt_irq ?pdev' ?s1'))) =
                  snd (probe_dt_reset pdev (fst (probe_dt_irq pdev ?s1)))"
    by (simp add: probe_defs log_def disable_irq_def Let_def)
  show "snd (sun4i_gpadc_probe_dt hw pdev info) = snd (sun4i_gpadc_probe_dt hw ?pdev' info)"
    unfolding probe_dt_after_nvmem(2) [OF m io bad] probe_dt_after_nvmem(2) [OF m' io' good]
    using irq_eq reset_eq by simp
qed

theorem probe_dt_calibration_blob_witness:
  "calibration_data (fst (sun4i_gpadc_probe_dt example_header
      (example_pdev (sun8i_h3_ths_data example_header)
         [0x78, 0x56, 0x34, 0x12, 0xf0, 0xde, 0xbc, 0x9a])
      (bound_device (sun8i_h3_ths_data example_header) 0))) = (0x12345678, 0x9abcdef0) \<and>
   calibration_data (fst (sun4i_gpadc_probe_dt example_header
      (example_pdev (sun8i_h3_ths_data example_header) [0x78, 0x56, 0x34, 0x12])
      ((bound_device (sun8i_h3_ths_data example_header) 0)
         \<lparr>calibration_data := (5, 6)\<rparr>))) = (5, 6) \<and>
   snd (sun4i_gpadc_probe_dt example_header
      (example_pdev (sun8i_h3_ths_data example_header) [0x78, 0x56, 0x34, 0x12])
      ((bound_device (sun8i_h3_ths_data example_header) 0)
         \<lparr>calibration_data := (5, 6)\<rparr>)) = 0"
proof -
  let ?d = "sun8i_h3_ths_data example_header"
  let ?p8 = "example_pdev ?d [0x78, 0x56, 0x34, 0x12, 0xf0, 0xde, 0xbc, 0x9a]"
  let ?p4 = "example_pdev ?d [0x78, 0x56, 0x34, 0x12]"
  have nv: "supports_nvmem ?d" by (simp add: sun8i_h3_ths_data_def)
  have io: "\<not> IS_ERR (ioremap_resource (example_pdev ?d bs))" for bs
    by (simp add: example_pdev_def)
  have m: "of_match_data (example_pdev ?d bs) = Some ?d" for bs
    by (simp add: example_pdev_def)
  have c: "nvmem_calibration (example_pdev ?d bs) = Cell bs" for bs
    by (simp add: example_pdev_def)
  have ok: "snd (sun4i_gpadc_probe_dt example_header (?p4\<lparr>nvmem_calibration := Cell (replicate 8 0)\<rparr>)
                   ((bound_device ?d 0)\<lparr>calibration_data := (5, 6)\<rparr>)) = 0"
    by (simp add: sun4i_gpadc_probe_dt_def probe_dt_nvmem_def probe_defs example_pdev_def
          sun8i_h3_ths_data_def bound_device_def log_def Let_def)
  note t8 = probe_dt_calibration_blob [where hw = example_header and pdev = ?p8 and d = ?d
      and bs = "[0x78, 0x56, 0x34, 0x12, 0xf0, 0xde, 0xbc, 0x9a]"
      and ba = "0x78" and bb = "0x56" and bc = "0x34" and bd = "0x12"
      and be = "0xf0" and bf = "0xde" and bg = "0xbc" and bh = "0x9a"
      and info = "bound_device ?d 0", OF m nv io c]
  note t4 = probe_dt_calibration_blob [where hw = example_header and pdev = ?p4 and d = ?d
      and bs = "[0x78, 0x56, 0x34, 0x12]"
      and info = "(bound_device ?d 0)\<lparr>calibration_data := (5, 6)\<rparr>", OF m nv io c]
  from t8 t4 ok
  show ?thesis
    by (simp add: le32_def)
qed

end
